theory Spec2Isabelle
  imports Complex_Main "HOL-Library.Char_ord" "HOL-Library.List_Lexorder"
begin

section \<open>Data model (src/types/index.ts)\<close>

text \<open>
  A participant as the interface \<^verbatim>\<open>Participant\<close> declares it. The field \<^verbatim>\<open>id\<close> is
  named \<open>id_p\<close> because \<open>id\<close> is the identity function of HOL. The object
  \<^verbatim>\<open>availability\<close> (\<^verbatim>\<open>{[day: string]: number[]}\<close>) is kept as the list of pairs that
  \<^verbatim>\<open>Object.entries\<close> enumerates; hours are JavaScript numbers, modelled as integers.
\<close>

datatype availabilityType = weekly | specific

datatype ParticipantRole = Judge | Prosecution | Defendant | DefenseAttorney | Witness

type_synonym Availability = "(string \<times> int list) list"

record Participant =
  id_p :: string
  name :: string
  role :: ParticipantRole
  timezone :: string
  availability :: Availability
  availabilityType :: availabilityType
  createdAt :: string

definition DAYS_OF_WEEK :: "string list" where
  "DAYS_OF_WEEK =
     [''Monday'', ''Tuesday'', ''Wednesday'', ''Thursday'', ''Friday'', ''Saturday'', ''Sunday'']"

text \<open>Exceptions thrown by the platform and by the libraries, as values.\<close>

datatype error = RangeError | SyntaxError | StorageError


section \<open>JavaScript values the code relies on\<close>

text \<open>
  \<^verbatim>\<open>Array.prototype.indexOf\<close> (\<open>-1\<close> when the element is absent), indexing an array
  (\<^verbatim>\<open>undefined\<close>, here \<open>None\<close>, outside the array), the remainder operator \<^verbatim>\<open>%\<close>
  (the sign of the dividend), \<^verbatim>\<open>Number.prototype.toString\<close> on integers and
  \<^verbatim>\<open>String.prototype.padStart\<close>.
\<close>

fun indexOf :: "'a list \<Rightarrow> 'a \<Rightarrow> int" where
  "indexOf [] x = -1"
| "indexOf (y # ys) x =
     (if y = x then 0 else (let i = indexOf ys x in if i = -1 then -1 else i + 1))"

definition at_index :: "'a list \<Rightarrow> int \<Rightarrow> 'a option" where
  "at_index xs i = (if 0 \<le> i \<and> i < int (length xs) then Some (xs ! nat i) else None)"

definition js_rem :: "int \<Rightarrow> int \<Rightarrow> int" where
  "js_rem a b = (if a < 0 then - ((- a) mod \<bar>b\<bar>) else a mod \<bar>b\<bar>)"

definition digit_char :: "nat \<Rightarrow> char" where
  "digit_char n = char_of (48 + n)"

fun string_of_nat :: "nat \<Rightarrow> string" where
  "string_of_nat n =
     (if n < 10 then [digit_char n] else string_of_nat (n div 10) @ [digit_char (n mod 10)])"

declare string_of_nat.simps [simp del]

definition toString :: "int \<Rightarrow> string" where
  "toString i = (if i < 0 then CHR ''-'' # string_of_nat (nat (- i)) else string_of_nat (nat i))"

definition padStart :: "nat \<Rightarrow> char \<Rightarrow> string \<Rightarrow> string" where
  "padStart n c s = replicate (n - length s) c @ s"

text \<open>
  A number that a date yields is \<^verbatim>\<open>NaN\<close> when the date is an Invalid Date: such
  numbers are options, \<open>None\<close> for \<^verbatim>\<open>NaN\<close>. Arithmetic with \<^verbatim>\<open>NaN\<close> gives \<^verbatim>\<open>NaN\<close>,
  every comparison with it is false, an array has nothing at the index \<^verbatim>\<open>NaN\<close>, and
  its text is \<^verbatim>\<open>NaN\<close>.
\<close>

type_synonym number = "int option"

definition num_add :: "number \<Rightarrow> number \<Rightarrow> number" where
  "num_add a b = (case (a, b) of (Some x, Some y) \<Rightarrow> Some (x + y) | _ \<Rightarrow> None)"

definition num_toString :: "number \<Rightarrow> string" where
  "num_toString a = (case a of None \<Rightarrow> ''NaN'' | Some x \<Rightarrow> toString x)"

definition num_at_index :: "'a list \<Rightarrow> number \<Rightarrow> 'a option" where
  "num_at_index xs a = (case a of None \<Rightarrow> None | Some i \<Rightarrow> at_index xs i)"


section \<open>JavaScript dates\<close>

text \<open>
  A \<^verbatim>\<open>Date\<close> holds a time value, the milliseconds since 1970-01-01T00:00 UTC, at most
  \<open>maxTime\<close> in absolute value, or it is an Invalid Date; a date is a
  \<open>jsdate option\<close>, \<open>None\<close> for the Invalid Date. \<open>TimeClip\<close>, \<open>Day\<close>,
  \<open>WeekDay\<close> (0 is Sunday; 1970-01-01 is a Thursday), \<open>HourFromTime\<close>,
  \<open>YearFromTime\<close>, \<open>MonthFromTime\<close> (from 0), \<open>DateFromTime\<close> and \<open>MakeDay\<close>
  are the operations of the language definition on time values; the calendar is the
  proleptic Gregorian one, computed on the number of the day.
\<close>

type_synonym jsdate = int

definition msPerDay :: int where "msPerDay = 86400000"
definition msPerHour :: int where "msPerHour = 3600000"
definition maxTime :: int where "maxTime = 8640000000000000"

definition TimeClip :: "int \<Rightarrow> jsdate option" where
  "TimeClip t = (if \<bar>t\<bar> \<le> maxTime then Some t else None)"

definition Day :: "int \<Rightarrow> int" where
  "Day t = t div msPerDay"

definition WeekDay :: "int \<Rightarrow> int" where
  "WeekDay t = (Day t + 4) mod 7"

definition HourFromTime :: "int \<Rightarrow> int" where
  "HourFromTime t = (t div msPerHour) mod 24"

text \<open>
  Day number of a civil date, and the civil date (year, month 1..12, day) of a day number.
  The days are counted in eras of 400 years that begin on 1 March: \<open>yearStart\<close> is the
  first day of a year of the era, \<open>yearOfEra\<close> the year of a day of the era.
\<close>

definition yearStart :: "int \<Rightarrow> int" where
  "yearStart yoe = 365 * yoe + yoe div 4 - yoe div 100"

definition yearOfEra :: "int \<Rightarrow> int" where
  "yearOfEra doe = (doe - doe div 1460 + doe div 36524 - doe div 146096) div 365"

definition days_from_civil :: "int \<Rightarrow> int \<Rightarrow> int \<Rightarrow> int" where
  "days_from_civil y m d =
     (let y' = (if m \<le> 2 then y - 1 else y);
          era = y' div 400;
          yoe = y' - era * 400;
          doy = (153 * (if m > 2 then m - 3 else m + 9) + 2) div 5 + d - 1;
          doe = yearStart yoe + doy
      in era * 146097 + doe - 719468)"

definition civil_from_days :: "int \<Rightarrow> int \<times> int \<times> int" where
  "civil_from_days z =
     (let z' = z + 719468;
          era = z' div 146097;
          doe = z' - era * 146097;
          yoe = yearOfEra doe;
          doy = doe - yearStart yoe;
          mp = (5 * doy + 2) div 153;
          d = doy - (153 * mp + 2) div 5 + 1;
          m = (if mp < 10 then mp + 3 else mp - 9);
          y = yoe + era * 400
      in (if m \<le> 2 then y + 1 else y, m, d))"

definition YearFromTime :: "int \<Rightarrow> int" where
  "YearFromTime t = fst (civil_from_days (Day t))"

definition MonthFromTime :: "int \<Rightarrow> int" where
  "MonthFromTime t = fst (snd (civil_from_days (Day t))) - 1"

definition DateFromTime :: "int \<Rightarrow> int" where
  "DateFromTime t = snd (snd (civil_from_days (Day t)))"

text \<open>
  \<open>MakeDay year month date\<close>: the number of the day of the first of the month
  (\<open>month\<close> from 0, carried into the year), plus \<open>date - 1\<close>.
\<close>

definition MakeDay :: "int \<Rightarrow> int \<Rightarrow> int \<Rightarrow> int" where
  "MakeDay year month date =
     days_from_civil (year + month div 12) (month mod 12 + 1) 1 + date - 1"

text \<open>The time value of a UTC date and hour: \<^verbatim>\<open>Date.UTC(y, m - 1, d, hr)\<close>.\<close>

definition mkDate :: "int \<Rightarrow> int \<Rightarrow> int \<Rightarrow> int \<Rightarrow> jsdate" where
  "mkDate y m d hr = days_from_civil y m d * msPerDay + hr * msPerHour"

text \<open>
  The browser's own zone is a parameter: \<open>LocalTime\<close> takes a time value to the local
  time (the time value plus the zone's offset then), \<open>UTC\<close> takes a local time back to a
  time value (in a gap or an overlap of the zone the platform chooses); and
  \<open>parseDate\<close> is \<^verbatim>\<open>new Date(string)\<close>, whose result outside the standard format is
  the platform's choice.
\<close>

record host =
  LocalTime :: "int \<Rightarrow> int"
  UTC :: "int \<Rightarrow> int"
  parseDate :: "string \<Rightarrow> jsdate option"

text \<open>The date with given local fields, as every constructor and setter ends.\<close>

definition fromLocal :: "host \<Rightarrow> int \<Rightarrow> jsdate option" where
  "fromLocal br t = TimeClip (UTC br t)"

text \<open>The getters read the local time; on an Invalid Date they return \<^verbatim>\<open>NaN\<close>.\<close>

definition getDay :: "host \<Rightarrow> jsdate option \<Rightarrow> number" where
  "getDay br d = map_option (\<lambda>t. WeekDay (LocalTime br t)) d"

definition getHours :: "host \<Rightarrow> jsdate option \<Rightarrow> number" where
  "getHours br d = map_option (\<lambda>t. HourFromTime (LocalTime br t)) d"

definition getFullYear :: "host \<Rightarrow> jsdate option \<Rightarrow> number" where
  "getFullYear br d = map_option (\<lambda>t. YearFromTime (LocalTime br t)) d"

definition getMonth :: "host \<Rightarrow> jsdate option \<Rightarrow> number" where
  "getMonth br d = map_option (\<lambda>t. MonthFromTime (LocalTime br t)) d"

definition getDate :: "host \<Rightarrow> jsdate option \<Rightarrow> number" where
  "getDate br d = map_option (\<lambda>t. DateFromTime (LocalTime br t)) d"

text \<open>
  \<^verbatim>\<open>new Date(year, month, date)\<close>: local midnight of that day; a year from 0 to 99 is
  read as 1900 plus the year.
\<close>

definition newDate3 :: "host \<Rightarrow> number \<Rightarrow> number \<Rightarrow> number \<Rightarrow> jsdate option" where
  "newDate3 br year month date =
     (case (year, month, date) of
        (Some y, Some m, Some dt) \<Rightarrow>
          fromLocal br (MakeDay (if 0 \<le> y \<and> y \<le> 99 then 1900 + y else y) m dt * msPerDay)
      | _ \<Rightarrow> None)"

text \<open>
  \<^verbatim>\<open>d.setDate(dt)\<close> keeps the local time of day and goes to the day
  \<open>MakeDay (YearFromTime t) (MonthFromTime t) dt\<close> of the local time \<open>t\<close>.
  \<^verbatim>\<open>d.setHours(hour, 0, 0, 0)\<close> goes to \<open>hour\<close> hours after the local midnight of the
  day of \<open>d\<close>. Both end in \<open>fromLocal\<close>: a local time in a gap of the browser's zone
  comes out shifted, and one past the range of dates gives an Invalid Date.
\<close>

definition setDate :: "host \<Rightarrow> jsdate option \<Rightarrow> number \<Rightarrow> jsdate option" where
  "setDate br d date =
     (case (d, date) of
        (Some t, Some dt) \<Rightarrow>
          (let lt = LocalTime br t
           in fromLocal br (MakeDay (YearFromTime lt) (MonthFromTime lt) dt * msPerDay
                            + lt mod msPerDay))
      | _ \<Rightarrow> None)"

definition setHours :: "host \<Rightarrow> jsdate option \<Rightarrow> int \<Rightarrow> jsdate option" where
  "setHours br d hour =
     (case d of
        Some t \<Rightarrow> fromLocal br (Day (LocalTime br t) * msPerDay + hour * msPerHour)
      | None \<Rightarrow> None)"


section \<open>The zone library (date-fns-tz)\<close>

text \<open>
  \<^verbatim>\<open>zonedTimeToUtc\<close> and \<^verbatim>\<open>utcToZonedTime\<close> are imported from date-fns-tz; they are
  parameters of the model. \<^verbatim>\<open>zonedTimeToUtc(date, zone)\<close> reads the local fields of its
  first argument, a \<^verbatim>\<open>Date\<close> or a string, as a wall-clock time in \<open>zone\<close> and returns
  that instant; \<^verbatim>\<open>utcToZonedTime(instant, zone)\<close> returns the date whose local fields
  are the wall clock of \<open>zone\<close> at the instant. Each call returns a date, returns an
  Invalid Date (\<open>Inr None\<close>), or throws (\<open>Inl\<close>).
\<close>

datatype date_input = DateObj "jsdate option" | DateStr string

record tzlib =
  zonedTimeToUtc :: "date_input \<Rightarrow> string \<Rightarrow> error + jsdate option"
  utcToZonedTime :: "jsdate option \<Rightarrow> string \<Rightarrow> error + jsdate option"


section \<open>Slot conversion (utils/timezone.ts)\<close>

text \<open>Messages written to the console.\<close>

datatype console = Warn string | Error string

definition days :: "string list" where
  "days = [''Monday'', ''Tuesday'', ''Wednesday'', ''Thursday'', ''Friday'', ''Saturday'', ''Sunday'']"

definition getDayIndex :: "string \<Rightarrow> int" where
  "getDayIndex dayName = indexOf days dayName"

definition getDayName :: "number \<Rightarrow> string option" where
  "getDayName dayIndex = num_at_index days (map_option (\<lambda>i. js_rem i 7) dayIndex)"

text \<open>
  The result \<^verbatim>\<open>{ day, hour }\<close>: \<open>slot_day\<close> is \<open>None\<close> where JavaScript holds
  \<^verbatim>\<open>undefined\<close>, \<open>slot_hour\<close> is \<open>None\<close> where it holds \<^verbatim>\<open>NaN\<close>.
\<close>

record slot =
  slot_day :: "string option"
  slot_hour :: number

text \<open>
  Two computations that the conversion code repeats word for word in
  \<^verbatim>\<open>convertTimeSlot\<close> and in the components: the date of the next occurrence of a
  weekday (given by its Monday-based index) at an hour, counted from the day of
  \<open>now\<close>, the clock read by \<^verbatim>\<open>new Date()\<close>; and the Monday-based index of the
  weekday of a date.
\<close>

definition nextOccurrence :: "host \<Rightarrow> jsdate \<Rightarrow> int \<Rightarrow> int \<Rightarrow> jsdate option" where
  "nextOccurrence br now targetDayIndex hour =
     (let currentYear = getFullYear br (Some now);
          currentMonth = getMonth br (Some now);
          today = newDate3 br currentYear currentMonth (getDate br (Some now));
          todayDayIndex = getDay br today;
          jsDayIndex = (if targetDayIndex = 6 then 0 else targetDayIndex + 1);
          daysToAdd0 = map_option (\<lambda>t. jsDayIndex - t) todayDayIndex;
          daysToAdd = map_option (\<lambda>n. if n < 0 then n + 7 else n) daysToAdd0;
          targetDate0 = setDate br today (num_add (getDate br today) daysToAdd);
          targetDate = setHours br targetDate0 hour
      in targetDate)"

definition mondayIndex :: "host \<Rightarrow> jsdate option \<Rightarrow> number" where
  "mondayIndex br userLocalTime =
     (let userDayOfWeek = getDay br userLocalTime;
          userDayIndex = map_option (\<lambda>w. if w = 0 then 6 else w - 1) userDayOfWeek
      in userDayIndex)"

text \<open>
  \<^verbatim>\<open>convertTimeSlot\<close>. The optional \<^verbatim>\<open>specificDate\<close> is an option, and it is truthy
  when it is a non-empty string. The function returns its result together with what it
  wrote to the console. What the library throws inside the \<^verbatim>\<open>try\<close> ends in the
  \<^verbatim>\<open>catch\<close>, which returns the arguments \<open>day\<close> and \<open>hour\<close>; an Invalid Date
  that the library returns is read like any date, and its fields are \<^verbatim>\<open>NaN\<close>.
\<close>

definition convertTimeSlot ::
  "host \<Rightarrow> tzlib \<Rightarrow> jsdate \<Rightarrow> string \<Rightarrow> string \<Rightarrow> string \<Rightarrow> int \<Rightarrow> string option
     \<Rightarrow> slot \<times> console list" where
  "convertTimeSlot br lib now participantTimezone userTimezone day hour specificDate =
     (let fallback = (\<lparr>slot_day = Some day, slot_hour = Some hour\<rparr>,
                      [Error ''Error converting timezone:'']);
          finish = (\<lambda>targetDate.
            case zonedTimeToUtc lib (DateObj targetDate) participantTimezone of
              Inl e \<Rightarrow> fallback
            | Inr utcTime \<Rightarrow>
                (case utcToZonedTime lib utcTime userTimezone of
                   Inl e \<Rightarrow> fallback
                 | Inr userLocalTime \<Rightarrow>
                     (let userDayIndex = mondayIndex br userLocalTime;
                          userDay = getDayName userDayIndex;
                          userHour = getHours br userLocalTime
                      in (\<lparr>slot_day = userDay, slot_hour = userHour\<rparr>, []))));
          weeklyPattern =
            (let targetDayIndex = getDayIndex day
             in if targetDayIndex = -1
                then (\<lparr>slot_day = Some day, slot_hour = Some hour\<rparr>,
                      [Warn (''Invalid day name: '' @ day)])
                else finish (nextOccurrence br now targetDayIndex hour))
      in case specificDate of
           None \<Rightarrow> weeklyPattern
         | Some sd \<Rightarrow>
             if sd = [] then weeklyPattern
             else finish (setHours br (parseDate br (sd @ ''T00:00:00'')) hour))"

text \<open>
  \<^verbatim>\<open>getTimezoneOffset\<close> and \<^verbatim>\<open>isDaylightSavingTime\<close>. \<^verbatim>\<open>date.toISOString()\<close>
  throws on an Invalid Date. The quotient by \<^verbatim>\<open>1000 * 60\<close> is a JavaScript number,
  here a rational, or \<^verbatim>\<open>NaN\<close>; \<^verbatim>\<open>!==\<close> is true when either side is \<^verbatim>\<open>NaN\<close>.
  \<^verbatim>\<open>getTimezoneOffset\<close> has no \<^verbatim>\<open>try\<close>: what is thrown goes to the caller, whose
  \<^verbatim>\<open>catch\<close> returns \<^verbatim>\<open>false\<close>.
\<close>

definition getTimezoneOffset :: "tzlib \<Rightarrow> jsdate option \<Rightarrow> string \<Rightarrow> error + rat option" where
  "getTimezoneOffset lib date tz =
     (case date of
        None \<Rightarrow> Inl RangeError
      | Some utcDate \<Rightarrow>
          (case utcToZonedTime lib (Some utcDate) tz of
             Inl e \<Rightarrow> Inl e
           | Inr zonedDate \<Rightarrow>
               (case zonedTimeToUtc lib (DateObj zonedDate) tz of
                  Inl e \<Rightarrow> Inl e
                | Inr utcTime \<Rightarrow>
                    Inr (map_option (\<lambda>u. of_int (u - utcDate) / (1000 * 60)) utcTime))))"

definition strict_neq :: "rat option \<Rightarrow> rat option \<Rightarrow> bool" where
  "strict_neq a b = (case (a, b) of (Some x, Some y) \<Rightarrow> x \<noteq> y | _ \<Rightarrow> True)"

definition isDaylightSavingTime :: "host \<Rightarrow> tzlib \<Rightarrow> jsdate option \<Rightarrow> string \<Rightarrow> bool" where
  "isDaylightSavingTime br lib date tz =
     (case getTimezoneOffset lib date tz of
        Inl e \<Rightarrow> False
      | Inr currentOffset \<Rightarrow>
          (let winterDate = newDate3 br (getFullYear br date) (Some 0) (Some 1) in
           case getTimezoneOffset lib winterDate tz of
             Inl e \<Rightarrow> False
           | Inr winterOffset \<Rightarrow> strict_neq currentOffset winterOffset))"


section \<open>The availability grid (components/AvailabilityMap.tsx)\<close>

text \<open>
  \<^verbatim>\<open>convertTimeSlotSpecific\<close>: the result \<^verbatim>\<open>{ date, hour, dayName }\<close>; the local
  date-time string of the participant goes to the library as a string. Its
  \<^verbatim>\<open>catch\<close> returns the participant's own date and hour with the day name Monday.
  When the library returns an Invalid Date, the fields are \<^verbatim>\<open>NaN\<close>, the date text is
  made of their texts, and the day name is \<^verbatim>\<open>undefined\<close>.
\<close>

record converted =
  conv_date :: string
  conv_hour :: number
  conv_dayName :: "string option"

definition convertTimeSlotSpecific ::
  "host \<Rightarrow> tzlib \<Rightarrow> string \<Rightarrow> string \<Rightarrow> string \<Rightarrow> int \<Rightarrow> converted" where
  "convertTimeSlotSpecific br lib participantTimezone userTimezone participantDateKey participantHour =
     (let fallback = \<lparr>conv_date = participantDateKey, conv_hour = Some participantHour,
                       conv_dayName = Some ''Monday''\<rparr>;
          participantDateTimeString =
            participantDateKey @ ''T'' @ padStart 2 CHR ''0'' (toString participantHour) @ '':00:00''
      in case zonedTimeToUtc lib (DateStr participantDateTimeString) participantTimezone of
           Inl e \<Rightarrow> fallback
         | Inr utcTime \<Rightarrow>
             (case utcToZonedTime lib utcTime userTimezone of
                Inl e \<Rightarrow> fallback
              | Inr userDateTime \<Rightarrow>
                  (let userYear = getFullYear br userDateTime;
                       userMonth = getMonth br userDateTime;
                       userDay = getDate br userDateTime;
                       userHour = getHours br userDateTime;
                       userDateString =
                         num_toString userYear @ ''-''
                           @ padStart 2 CHR ''0'' (num_toString (num_add userMonth (Some 1)))
                           @ ''-'' @ padStart 2 CHR ''0'' (num_toString userDay);
                       userDayIndex = mondayIndex br userDateTime;
                       dayName = num_at_index days userDayIndex
                   in \<lparr>conv_date = userDateString, conv_hour = userHour,
                        conv_dayName = dayName\<rparr>)))"

text \<open>
  \<^verbatim>\<open>getAllPossibleDates\<close>: the three nested \<^verbatim>\<open>forEach\<close> calls add to a \<^verbatim>\<open>Set\<close>, which
  keeps the first insertion of each value; \<^verbatim>\<open>Array.from(allDates).sort()\<close> sorts the
  strings by their code units.
\<close>

definition set_add :: "'a list \<Rightarrow> 'a \<Rightarrow> 'a list" where
  "set_add xs x = (if x \<in> set xs then xs else xs @ [x])"

definition getAllPossibleDates :: "host \<Rightarrow> tzlib \<Rightarrow> Participant list \<Rightarrow> string \<Rightarrow> string list" where
  "getAllPossibleDates br lib participants userTimezone =
     sort (fold (\<lambda>participant allDates.
             if availabilityType participant = specific
             then fold (\<lambda>(dateKey, hours) allDates.
                    fold (\<lambda>hour allDates.
                      set_add allDates
                        (conv_date (convertTimeSlotSpecific br lib (timezone participant)
                                      userTimezone dateKey hour)))
                      hours allDates)
                    (availability participant) allDates
             else allDates)
           participants [])"

text \<open>
  \<^verbatim>\<open>getAvailabilityData(day, hour, specificDate?)\<close>: the array
  \<^verbatim>\<open>availableParticipants\<close> is threaded through the iterations, \<^verbatim>\<open>push\<close> appends. In
  the weekly branch the \<^verbatim>\<open>try\<close> is inside the innermost callback: an exception ends
  that one call of the callback. \<open>weeklyEntry\<close> is that callback.
\<close>

record AvailabilityData =
  participants_of :: "Participant list"
  count :: nat
  participantNames :: "string list"

definition weeklyEntry ::
  "host \<Rightarrow> tzlib \<Rightarrow> jsdate \<Rightarrow> string \<Rightarrow> string \<Rightarrow> int \<Rightarrow> Participant \<Rightarrow> string \<Rightarrow> int
     \<Rightarrow> Participant list \<Rightarrow> Participant list" where
  "weeklyEntry br lib now userTimezone day hour participant participantDay participantHour
       availableParticipants =
     (let dayIndex = indexOf days participantDay
      in if dayIndex = -1 then availableParticipants
         else
           (let targetDate = nextOccurrence br now dayIndex participantHour
            in case zonedTimeToUtc lib (DateObj targetDate) (timezone participant) of
                 Inl e \<Rightarrow> availableParticipants
               | Inr utcTime \<Rightarrow>
                   (case utcToZonedTime lib utcTime userTimezone of
                      Inl e \<Rightarrow> availableParticipants
                    | Inr userDateTime \<Rightarrow>
                        (let userDayIndex = mondayIndex br userDateTime;
                             userDay = num_at_index days userDayIndex;
                             userHour = getHours br userDateTime
                         in if userDay = Some day \<and> userHour = Some hour
                            then availableParticipants @ [participant]
                            else availableParticipants))))"

definition specificEntry ::
  "host \<Rightarrow> tzlib \<Rightarrow> string \<Rightarrow> string \<Rightarrow> int \<Rightarrow> string \<Rightarrow> Participant \<Rightarrow> string \<Rightarrow> int
     \<Rightarrow> Participant list \<Rightarrow> Participant list" where
  "specificEntry br lib userTimezone day hour specificDate participant participantDateKey
       participantHour availableParticipants =
     (let conv = convertTimeSlotSpecific br lib (timezone participant) userTimezone
                   participantDateKey participantHour
      in if conv_date conv = specificDate \<and> conv_hour conv = Some hour
            \<and> conv_dayName conv = Some day
         then availableParticipants @ [participant]
         else availableParticipants)"

definition truthy :: "string option \<Rightarrow> bool" where
  "truthy s = (case s of None \<Rightarrow> False | Some t \<Rightarrow> t \<noteq> [])"

definition getAvailabilityData ::
  "host \<Rightarrow> tzlib \<Rightarrow> jsdate \<Rightarrow> Participant list \<Rightarrow> string \<Rightarrow> string \<Rightarrow> int \<Rightarrow> string option
     \<Rightarrow> AvailabilityData" where
  "getAvailabilityData br lib now participants userTimezone day hour specificDate =
     (let availableParticipants =
            fold (\<lambda>participant availableParticipants.
              if availabilityType participant = weekly \<and> \<not> truthy specificDate
              then fold (\<lambda>(participantDay, participantHours) availableParticipants.
                     fold (weeklyEntry br lib now userTimezone day hour participant participantDay)
                       participantHours availableParticipants)
                     (availability participant) availableParticipants
              else if availabilityType participant = specific \<and> truthy specificDate
              then (case specificDate of
                      None \<Rightarrow> availableParticipants
                    | Some sd \<Rightarrow>
                        fold (\<lambda>(participantDateKey, participantHours) availableParticipants.
                          fold (specificEntry br lib userTimezone day hour sd participant
                                  participantDateKey)
                            participantHours availableParticipants)
                          (availability participant) availableParticipants)
              else availableParticipants)
            participants []
      in \<lparr>participants_of = availableParticipants,
          count = length availableParticipants,
          participantNames = map name availableParticipants\<rparr>)"

text \<open>
  \<^verbatim>\<open>renderTimeSlot\<close>: the element returned, reduced to what it shows. A cell with no
  member is the empty cell; otherwise the cell shows one colour segment per entry of
  \<^verbatim>\<open>availableParticipants\<close>, and the label \<^verbatim>\<open>all\<close> (\<open>cell_isAllParticipants\<close>) or
  the count.
\<close>

datatype cell =
  EmptyCell
| Cell (cell_segments: "Participant list") (cell_count: nat) (cell_isAllParticipants: bool)

definition renderTimeSlot ::
  "host \<Rightarrow> tzlib \<Rightarrow> jsdate \<Rightarrow> Participant list \<Rightarrow> string \<Rightarrow> string \<Rightarrow> int \<Rightarrow> string option \<Rightarrow> cell" where
  "renderTimeSlot br lib now participants userTimezone day hour specificDate =
     (let data = getAvailabilityData br lib now participants userTimezone day hour specificDate
      in if count data = 0 then EmptyCell
         else
           (let totalParticipants = length participants;
                isAllParticipants = (count data = totalParticipants)
            in Cell (participants_of data) (count data) isAllParticipants))"

text \<open>The flag a cell shows: the label \<^verbatim>\<open>all\<close>.\<close>

definition isFullCoverage :: "cell \<Rightarrow> bool" where
  "isFullCoverage c = (case c of EmptyCell \<Rightarrow> False | Cell _ _ isAll \<Rightarrow> isAll)"

text \<open>
  The earlier \<^verbatim>\<open>getAvailabilityData(day, hour)\<close> of the component, which calls
  \<^verbatim>\<open>convertTimeSlot\<close> of utils/timezone.ts for every entry (weekly mode only).
\<close>

definition getAvailabilityData_weekly ::
  "host \<Rightarrow> tzlib \<Rightarrow> jsdate \<Rightarrow> Participant list \<Rightarrow> string \<Rightarrow> string \<Rightarrow> int \<Rightarrow> AvailabilityData" where
  "getAvailabilityData_weekly br lib now participants userTimezone day hour =
     (let availableParticipants =
            fold (\<lambda>participant availableParticipants.
              fold (\<lambda>(participantDay, participantHours) availableParticipants.
                fold (\<lambda>participantHour availableParticipants.
                  (let conv = fst (convertTimeSlot br lib now (timezone participant) userTimezone
                                     participantDay participantHour None)
                   in if slot_day conv = Some day \<and> slot_hour conv = Some hour
                      then availableParticipants @ [participant]
                      else availableParticipants))
                  participantHours availableParticipants)
                (availability participant) availableParticipants)
            participants []
      in \<lparr>participants_of = availableParticipants,
          count = length availableParticipants,
          participantNames = map name availableParticipants\<rparr>)"


text \<open>
  \<^verbatim>\<open>getLocalTimeParts\<close>. \<^verbatim>\<open>Intl.DateTimeFormat\<close> belongs to the platform:
  \<open>formatToParts\<close> stands for building the formatter for \<^verbatim>\<open>en-US\<close>, the given zone,
  \<^verbatim>\<open>hour12: false\<close>, a long weekday and a numeric hour, and formatting the date into
  parts, pairs of a type and a value; it may throw, and the function has no \<^verbatim>\<open>try\<close>.
  A date is \<open>None\<close> when it is an Invalid Date. \<^verbatim>\<open>parseInt(s, 10)\<close> skips leading white
  space, reads a sign and then the digits, and is \<^verbatim>\<open>NaN\<close> (\<open>None\<close>) when there is no
  digit; \<^verbatim>\<open>NaN % 24\<close> is \<^verbatim>\<open>NaN\<close>.
\<close>

type_synonym intl = "string \<Rightarrow> jsdate option \<Rightarrow> error + (string \<times> string) list"

definition isSpace :: "char \<Rightarrow> bool" where
  "isSpace c = (c \<in> set [CHR '' '', CHR 0x09, CHR 0x0A, CHR 0x0B, CHR 0x0C, CHR 0x0D])"

definition isDigit :: "char \<Rightarrow> bool" where
  "isDigit c = (CHR ''0'' \<le> c \<and> c \<le> CHR ''9'')"

definition digits_to_int :: "string \<Rightarrow> int" where
  "digits_to_int ds = fold (\<lambda>c n. 10 * n + (int (of_char c) - 48)) ds 0"

definition parseInt :: "string \<Rightarrow> int option" where
  "parseInt s =
     (let t = dropWhile isSpace s;
          neg = (t \<noteq> [] \<and> hd t = CHR ''-'');
          u = (if t \<noteq> [] \<and> (hd t = CHR ''-'' \<or> hd t = CHR ''+'') then tl t else t);
          ds = takeWhile isDigit u
      in if ds = [] then None
         else Some (if neg then - digits_to_int ds else digits_to_int ds))"

text \<open>\<^verbatim>\<open>parts.find((p) => p.type === t)?.value || dflt\<close>.\<close>

definition part_value_or :: "(string \<times> string) list \<Rightarrow> string \<Rightarrow> string \<Rightarrow> string" where
  "part_value_or parts t dflt =
     (case find (\<lambda>p. fst p = t) parts of
        None \<Rightarrow> dflt
      | Some p \<Rightarrow> if snd p = [] then dflt else snd p)"

definition getLocalTimeParts ::
  "intl \<Rightarrow> jsdate option \<Rightarrow> string \<Rightarrow> error + (string \<times> int option)" where
  "getLocalTimeParts formatToParts date timeZone =
     (case formatToParts timeZone date of
        Inl e \<Rightarrow> Inl e
      | Inr parts \<Rightarrow>
          (let weekday = part_value_or parts ''weekday'' '''';
               hour = map_option (\<lambda>n. js_rem n 24) (parseInt (part_value_or parts ''hour'' ''0''))
           in Inr (weekday, hour)))"


section \<open>Persistence (src/utils/storage.ts)\<close>

text \<open>
  The browser's \<^verbatim>\<open>localStorage\<close>: the stored items, and the two ways its operations
  throw: reading is refused (\<open>readable\<close> is false), or a value does not fit the quota.
\<close>

record localStorage =
  items :: "string \<rightharpoonup> string"
  readable :: bool
  quota :: nat

definition setItem :: "localStorage \<Rightarrow> string \<Rightarrow> string \<Rightarrow> error + localStorage" where
  "setItem ls k v =
     (if quota ls < length v then Inl StorageError
      else Inr (ls\<lparr>items := (items ls)(k \<mapsto> v)\<rparr>))"

definition getItem :: "localStorage \<Rightarrow> string \<Rightarrow> error + string option" where
  "getItem ls k = (if readable ls then Inr (items ls k) else Inl StorageError)"

text \<open>
  \<^verbatim>\<open>JSON.stringify\<close> and \<^verbatim>\<open>JSON.parse\<close> belong to the platform; they are parameters
  of the model, and each may throw.
\<close>

record json =
  stringify :: "Participant list \<Rightarrow> error + string"
  parse :: "string \<Rightarrow> error + Participant list"

definition STORAGE_KEY :: string where
  "STORAGE_KEY = ''rp-court-participants''"

text \<open>
  \<^verbatim>\<open>saveParticipants\<close>: whatever is thrown inside the \<^verbatim>\<open>try\<close> is caught and the store
  stays as it was.
\<close>

definition saveParticipants :: "json \<Rightarrow> localStorage \<Rightarrow> Participant list \<Rightarrow> localStorage" where
  "saveParticipants js ls participants =
     (case stringify js participants of
        Inl e \<Rightarrow> ls
      | Inr s \<Rightarrow> (case setItem ls STORAGE_KEY s of Inl e \<Rightarrow> ls | Inr ls' \<Rightarrow> ls'))"

text \<open>
  \<^verbatim>\<open>loadParticipants\<close>: \<^verbatim>\<open>stored ? JSON.parse(stored) : []\<close>; \<^verbatim>\<open>null\<close> and the empty
  string are the falsy values of \<^verbatim>\<open>stored\<close>. An exception gives the empty list.
\<close>

definition loadParticipants :: "json \<Rightarrow> localStorage \<Rightarrow> Participant list" where
  "loadParticipants js ls =
     (case getItem ls STORAGE_KEY of
        Inl e \<Rightarrow> []
      | Inr stored \<Rightarrow>
          (case stored of
             None \<Rightarrow> []
           | Some s \<Rightarrow>
               if s = [] then []
               else (case parse js s of Inl e \<Rightarrow> [] | Inr ps \<Rightarrow> ps)))"


section \<open>Notions used in the statements\<close>

text \<open>
  The raw entries of a participant, one pair of a key and an hour for each hour of each
  key, in the order of iteration; whether the callback of \<^verbatim>\<open>getAvailabilityData\<close> pushes
  the participant for an entry; and the contribution of a participant to a cell, one
  copy of the participant for each entry that is pushed.
\<close>

definition entries :: "Participant \<Rightarrow> (string \<times> int) list" where
  "entries participant = concat (map (\<lambda>(k, hs). map (Pair k) hs) (availability participant))"

definition entryMatches ::
  "host \<Rightarrow> tzlib \<Rightarrow> jsdate \<Rightarrow> string \<Rightarrow> string \<Rightarrow> int \<Rightarrow> string option \<Rightarrow> Participant
     \<Rightarrow> string \<Rightarrow> int \<Rightarrow> bool" where
  "entryMatches br lib now userTimezone day hour specificDate participant k hr =
     (if availabilityType participant = weekly \<and> \<not> truthy specificDate
      then weeklyEntry br lib now userTimezone day hour participant k hr [] = [participant]
      else if availabilityType participant = specific \<and> truthy specificDate
      then (case specificDate of
              None \<Rightarrow> False
            | Some sd \<Rightarrow>
                specificEntry br lib userTimezone day hour sd participant k hr [] = [participant])
      else False)"

definition contribution ::
  "host \<Rightarrow> tzlib \<Rightarrow> jsdate \<Rightarrow> string \<Rightarrow> string \<Rightarrow> int \<Rightarrow> string option \<Rightarrow> Participant
     \<Rightarrow> Participant list" where
  "contribution br lib now tz day hour sd p =
     map (\<lambda>e. p) (filter (\<lambda>(k, hr). entryMatches br lib now tz day hour sd p k hr) (entries p))"

text \<open>
  Whether the callback of the earlier \<^verbatim>\<open>getAvailabilityData\<close> pushes the participant
  for an entry.
\<close>

definition entryMatches_weekly ::
  "host \<Rightarrow> tzlib \<Rightarrow> jsdate \<Rightarrow> string \<Rightarrow> string \<Rightarrow> int \<Rightarrow> Participant \<Rightarrow> string \<Rightarrow> int
     \<Rightarrow> bool" where
  "entryMatches_weekly br lib now userTimezone day hour participant k hr =
     (let conv = fst (convertTimeSlot br lib now (timezone participant) userTimezone k hr None)
      in slot_day conv = Some day \<and> slot_hour conv = Some hour)"

text \<open>The iteration of \<^verbatim>\<open>getAllPossibleDates\<close>, from any set of dates collected so far.\<close>

definition collectDates ::
  "host \<Rightarrow> tzlib \<Rightarrow> string \<Rightarrow> Participant list \<Rightarrow> string list \<Rightarrow> string list" where
  "collectDates br lib userTimezone participants allDates0 =
     fold (\<lambda>participant allDates.
             if availabilityType participant = specific
             then fold (\<lambda>(dateKey, hours) allDates.
                    fold (\<lambda>hour allDates.
                      set_add allDates
                        (conv_date (convertTimeSlotSpecific br lib (timezone participant)
                                      userTimezone dateKey hour)))
                      hours allDates)
                    (availability participant) allDates
             else allDates)
           participants allDates0"

text \<open>A text of decimal digits, as a formatter writes a numeric hour.\<close>

definition numeral_text :: "string \<Rightarrow> bool" where
  "numeral_text s = (s \<noteq> [] \<and> list_all isDigit s)"




text \<open>
  The number of the day that the code asks for as today,
  \<^verbatim>\<open>new Date(currentYear, currentMonth, now.getDate())\<close>; and whether every hour of the
  seven days from the midnight of that day exists as a local time of the browser's zone.
\<close>

definition todayDay :: "host \<Rightarrow> jsdate \<Rightarrow> int" where
  "todayDay br now =
     (let lt = LocalTime br now;
          y = YearFromTime lt
      in MakeDay (if 0 \<le> y \<and> y \<le> 99 then 1900 + y else y) (MonthFromTime lt) (DateFromTime lt))"




section \<open>Values for the examples\<close>

text \<open>
  A zone database small enough to compute with: each zone has an offset from UTC in
  minutes and a list of later changes, each an instant and the offset from that instant
  on, in the order of time.
\<close>

datatype zrule = Rules int "(jsdate \<times> int) list"

fun offsetAt :: "zrule \<Rightarrow> jsdate \<Rightarrow> int" where
  "offsetAt (Rules m changes) t =
     fold (\<lambda>(T, m') acc. if T \<le> t then m' * 60000 else acc) changes (m * 60000)"

text \<open>
  Date-time texts of the form \<^verbatim>\<open>YYYY-MM-DDTHH:mm:ss\<close>, read into their six numbers.
  The browser (as V8 does) takes a day up to 31 in any month and carries it into the
  next month, and takes 24:00:00 as the next midnight; the library takes only the days
  of the month, and an hour up to 24, which it reads modulo 24.
\<close>

definition digit_val :: "char \<Rightarrow> int option" where
  "digit_val c =
     (if CHR ''0'' \<le> c \<and> c \<le> CHR ''9'' then Some (int (of_char c) - 48) else None)"

fun digits_val :: "string \<Rightarrow> int option" where
  "digits_val [] = None"
| "digits_val [c] = digit_val c"
| "digits_val cs =
     (case (digits_val (butlast cs), digit_val (last cs)) of
        (Some n, Some k) \<Rightarrow> Some (10 * n + k)
      | _ \<Rightarrow> None)"

definition isoFields :: "string \<Rightarrow> (int \<times> int \<times> int \<times> int \<times> int \<times> int) option" where
  "isoFields s =
     (if length s = 19 \<and> s ! 4 = CHR ''-'' \<and> s ! 7 = CHR ''-'' \<and> s ! 10 = CHR ''T''
         \<and> s ! 13 = CHR '':'' \<and> s ! 16 = CHR '':''
      then (case (digits_val (take 4 s), digits_val (take 2 (drop 5 s)),
                  digits_val (take 2 (drop 8 s)), digits_val (take 2 (drop 11 s)),
                  digits_val (take 2 (drop 14 s)), digits_val (take 2 (drop 17 s))) of
              (Some y, Some m, Some d, Some hr, Some mi, Some sec) \<Rightarrow> Some (y, m, d, hr, mi, sec)
            | _ \<Rightarrow> None)
      else None)"

definition daysInMonth :: "int \<Rightarrow> int \<Rightarrow> int" where
  "daysInMonth y m = days_from_civil (if m = 12 then y + 1 else y) (if m = 12 then 1 else m + 1) 1
                     - days_from_civil y m 1"

definition browserParse :: "string \<Rightarrow> int option" where
  "browserParse s =
     (case isoFields s of
        None \<Rightarrow> None
      | Some (y, m, d, hr, mi, sec) \<Rightarrow>
          if 1 \<le> m \<and> m \<le> 12 \<and> 1 \<le> d \<and> d \<le> 31
             \<and> (hr \<le> 23 \<and> mi \<le> 59 \<and> sec \<le> 59 \<or> hr = 24 \<and> mi = 0 \<and> sec = 0)
          then Some (mkDate y m d hr + mi * 60000 + sec * 1000)
          else None)"

definition libraryParse :: "string \<Rightarrow> int option" where
  "libraryParse s =
     (case isoFields s of
        None \<Rightarrow> None
      | Some (y, m, d, hr, mi, sec) \<Rightarrow>
          if 1 \<le> m \<and> m \<le> 12 \<and> 1 \<le> d \<and> d \<le> daysInMonth y m
             \<and> hr \<le> 24 \<and> mi \<le> 59 \<and> sec \<le> 59
          then Some (mkDate y m d (hr mod 24) + mi * 60000 + sec * 1000)
          else None)"

text \<open>
  A browser in a zone of the database. A local time that the zone repeats or skips is
  resolved with the offset before the change, as the language definition says.
\<close>

definition resolveLocal :: "zrule \<Rightarrow> int \<Rightarrow> int" where
  "resolveLocal r t =
     (let o1 = offsetAt r (t - msPerDay)
      in if offsetAt r (t - o1) = o1 then t - o1
         else (let o2 = offsetAt r (t - o1)
               in if offsetAt r (t - o2) = o2 then t - o2 else t - o1))"

definition hostOf :: "zrule \<Rightarrow> host" where
  "hostOf r =
     \<lparr>LocalTime = (\<lambda>t. t + offsetAt r t),
      UTC = resolveLocal r,
      parseDate = (\<lambda>s. case browserParse s of
                          None \<Rightarrow> None
                        | Some t \<Rightarrow> TimeClip (resolveLocal r t))\<rparr>"

text \<open>
  A browser in UTC, and one in New York, which in 2024 goes from \<open>-300\<close> to \<open>-240\<close>
  on 10 March at 07:00 UTC and back on 3 November at 06:00 UTC.
\<close>

definition hostUTC :: host where
  "hostUTC = hostOf (Rules 0 [])"

definition hostNewYork :: host where
  "hostNewYork = hostOf (Rules (-300) [(mkDate 2024 3 10 7, -240), (mkDate 2024 11 3 6, -300)])"

text \<open>
  The two library functions over the database, as date-fns-tz behaves in a browser: they
  do not throw; an identifier that is not in the table, an Invalid Date and a string
  that is no date give an Invalid Date. \<^verbatim>\<open>zonedTimeToUtc\<close> reads the local fields of
  the date it is given; a wall-clock time is resolved by trying the offset at the time
  itself, then the offset that guess leads to, and in a gap the greater offset is
  taken. \<^verbatim>\<open>utcToZonedTime\<close> builds the date whose local fields are the wall clock.
\<close>

definition resolveWall :: "zrule \<Rightarrow> jsdate \<Rightarrow> jsdate" where
  "resolveWall r w =
     (let o1 = offsetAt r w;
          o2 = offsetAt r (w - o1)
      in if o1 = o2 then w - o1
         else (let o3 = offsetAt r (w - o2)
               in if o2 = o3 then w - o2 else w - max o2 o3))"

definition tableLib :: "host \<Rightarrow> (string \<times> zrule) list \<Rightarrow> tzlib" where
  "tableLib br tab =
     \<lparr>zonedTimeToUtc = (\<lambda>date tz.
        case map_of tab tz of
          None \<Rightarrow> Inr None
        | Some r \<Rightarrow>
            (case date of
               DateObj None \<Rightarrow> Inr None
             | DateObj (Some d) \<Rightarrow> Inr (TimeClip (resolveWall r (LocalTime br d)))
             | DateStr s \<Rightarrow>
                 (case libraryParse s of
                    None \<Rightarrow> Inr None
                  | Some w \<Rightarrow> Inr (TimeClip (resolveWall r w))))),
      utcToZonedTime = (\<lambda>date tz.
        case (map_of tab tz, date) of
          (Some r, Some u) \<Rightarrow> Inr (fromLocal br (u + offsetAt r u))
        | _ \<Rightarrow> Inr None)\<rparr>"

text \<open>
  The year 2024: London goes to \<open>+60\<close> on 31 March at 01:00 UTC and back to \<open>0\<close> on
  27 October at 01:00 UTC; Los Angeles goes to \<open>-420\<close> on 10 March at 10:00 UTC and
  back to \<open>-480\<close> on 3 November at 09:00 UTC. \<open>lib2024\<close> is the library in a browser
  in UTC, \<open>lib2024NewYork\<close> the library in a browser in New York.
\<close>

definition zones2024 :: "(string \<times> zrule) list" where
  "zones2024 =
     [(''UTC'', Rules 0 []),
      (''Asia/Tokyo'', Rules 540 []),
      (''Asia/Kolkata'', Rules 330 []),
      (''America/Los_Angeles'',
         Rules (-480) [(mkDate 2024 3 10 10, -420), (mkDate 2024 11 3 9, -480)]),
      (''Europe/London'', Rules 0 [(mkDate 2024 3 31 1, 60), (mkDate 2024 10 27 1, 0)])]"

definition lib2024 :: tzlib where
  "lib2024 = tableLib hostUTC zones2024"

definition lib2024NewYork :: tzlib where
  "lib2024NewYork = tableLib hostNewYork zones2024"

text \<open>
  A formatter over the same table: it throws on an Invalid Date and on an unknown zone,
  and writes midnight as \<^verbatim>\<open>24\<close>, as formatters with the hour cycle \<^verbatim>\<open>h24\<close> do.
\<close>

definition tableFormat :: "(string \<times> zrule) list \<Rightarrow> intl" where
  "tableFormat tab tz date =
     (case (map_of tab tz, date) of
        (Some r, Some d) \<Rightarrow>
          (let w = d + offsetAt r d;
               wd = (case at_index days ((WeekDay w + 6) mod 7) of None \<Rightarrow> [] | Some n \<Rightarrow> n);
               hr = (if HourFromTime w = 0 then 24 else HourFromTime w)
           in Inr [(''weekday'', wd), (''literal'', '', ''),
                   (''hour'', padStart 2 CHR ''0'' (toString hr))])
      | _ \<Rightarrow> Inl RangeError)"

text \<open>
  The clocks of the examples: Monday 21 October 2024 at noon UTC, and Wednesday 6 March
  2024 at 17:00 UTC (noon in New York).
\<close>

definition now2024 :: jsdate where
  "now2024 = mkDate 2024 10 21 12"


text \<open>
  Participants of the examples: \<open>alice\<close> is free on Monday at 9, \<open>bob\<close> on Sunday
  at 0 and at 1 o'clock UTC, \<open>carol\<close> has an entry with the hour 24, \<open>erin\<close>
  has an entry on a day that does not exist.
\<close>

definition alice :: Participant where
  "alice = \<lparr>id_p = ''1'', name = ''Alice'', role = Judge, timezone = ''UTC'',
     availability = [(''Monday'', [9])], availabilityType = weekly,
     createdAt = ''2024-01-01T00:00:00.000Z''\<rparr>"

definition bob :: Participant where
  "bob = \<lparr>id_p = ''2'', name = ''Bob'', role = Witness, timezone = ''UTC'',
     availability = [(''Sunday'', [0, 1])], availabilityType = weekly,
     createdAt = ''2024-01-01T00:00:00.000Z''\<rparr>"

definition carol :: Participant where
  "carol = \<lparr>id_p = ''3'', name = ''Carol'', role = Defendant, timezone = ''UTC'',
     availability = [(''Monday'', [24])], availabilityType = weekly,
     createdAt = ''2024-01-01T00:00:00.000Z''\<rparr>"

definition erin :: Participant where
  "erin = \<lparr>id_p = ''5'', name = ''Erin'', role = Judge, timezone = ''UTC'',
     availability = [(''Funday'', [9]), (''Monday'', [9])], availabilityType = weekly,
     createdAt = ''2024-01-01T00:00:00.000Z''\<rparr>"

text \<open>
  An empty store, and a fragment of JSON given by a table of values and their texts
  (any other value or text throws).
\<close>

definition json_of_table :: "(Participant list \<times> string) list \<Rightarrow> json" where
  "json_of_table tab =
     \<lparr>stringify = (\<lambda>ps. case map_of tab ps of None \<Rightarrow> Inl SyntaxError | Some s \<Rightarrow> Inr s),
      parse = (\<lambda>s. case map_of (map (\<lambda>(ps, t). (t, ps)) tab) s of
                      None \<Rightarrow> Inl SyntaxError | Some ps \<Rightarrow> Inr ps)\<rparr>"

definition alice_json :: string where
  "alice_json = ''[{\"id\":\"1\",\"name\":\"Alice\",\"availability\":{\"Monday\":[9]}}]''"

definition demo_json :: json where
  "demo_json = json_of_table [([], ''[]''), ([alice], alice_json)]"

definition emptyStorage :: localStorage where
  "emptyStorage = \<lparr>items = Map.empty, readable = True, quota = 5000000\<rparr>"



section \<open>Persistence: save then load\<close>

text \<open>
  C10. When the serialisation of the participant list round-trips through
  \<^verbatim>\<open>JSON.parse\<close> (the serialised text of an array is never empty) and the storage
  operations succeed (the text fits the quota, reading is allowed), loading right
  after saving returns the saved list. When nothing is stored under the key, or
  reading throws, or the stored text does not parse, loading returns the empty list.
\<close>

theorem load_after_save:
  "(stringify js ps = Inr s \<and> s \<noteq> [] \<and> parse js s = Inr ps
      \<and> length s \<le> quota ls \<and> readable ls
      \<longrightarrow> loadParticipants js (saveParticipants js ls ps) = ps)
   \<and> (items ls0 STORAGE_KEY = None \<longrightarrow> loadParticipants js ls0 = [])
   \<and> (\<not> readable ls1 \<longrightarrow> loadParticipants js ls1 = [])
   \<and> (items ls2 STORAGE_KEY = Some t \<and> parse js t = Inl e \<longrightarrow> loadParticipants js ls2 = [])"
  by (auto simp: loadParticipants_def saveParticipants_def setItem_def getItem_def)

theorem load_after_save_witness:
  "stringify demo_json [alice] = Inr alice_json \<and> alice_json \<noteq> []
   \<and> parse demo_json alice_json = Inr [alice]
   \<and> length alice_json \<le> quota emptyStorage \<and> readable emptyStorage
   \<and> loadParticipants demo_json (saveParticipants demo_json emptyStorage [alice]) = [alice]
   \<and> items emptyStorage STORAGE_KEY = None \<and> loadParticipants demo_json emptyStorage = []
   \<and> \<not> readable (emptyStorage\<lparr>readable := False\<rparr>)
   \<and> loadParticipants demo_json (emptyStorage\<lparr>readable := False\<rparr>) = []
   \<and> items (emptyStorage\<lparr>items := [STORAGE_KEY \<mapsto> ''{'']\<rparr>) STORAGE_KEY = Some ''{''
   \<and> parse demo_json ''{'' = Inl SyntaxError
   \<and> loadParticipants demo_json (emptyStorage\<lparr>items := [STORAGE_KEY \<mapsto> ''{'']\<rparr>) = []"
  using load_after_save [of demo_json "[alice]" alice_json emptyStorage emptyStorage
      "emptyStorage\<lparr>readable := False\<rparr>" "emptyStorage\<lparr>items := [STORAGE_KEY \<mapsto> ''{'']\<rparr>"
      "''{''" SyntaxError]
  by (simp add: demo_json_def json_of_table_def alice_json_def emptyStorage_def alice_def)


section \<open>Aggregation is the concatenation of the contributions\<close>

lemma weeklyEntry_acc:
  "weeklyEntry br lib now tz day hour p k h acc = acc @ weeklyEntry br lib now tz day hour p k h []"
  by (simp add: weeklyEntry_def Let_def split: sum.splits)

lemma weeklyEntry_cases:
  "weeklyEntry br lib now tz day hour p k h [] = [] \<or> weeklyEntry br lib now tz day hour p k h [] = [p]"
  by (simp add: weeklyEntry_def Let_def split: sum.splits)

lemma specificEntry_acc:
  "specificEntry br lib tz day hour sd p k h acc = acc @ specificEntry br lib tz day hour sd p k h []"
  by (simp add: specificEntry_def Let_def)

lemma specificEntry_cases:
  "specificEntry br lib tz day hour sd p k h [] = [] \<or> specificEntry br lib tz day hour sd p k h [] = [p]"
  by (simp add: specificEntry_def Let_def)

lemma fold_push:
  assumes "\<And>x acc. f x acc = acc @ g x"
  shows "fold f xs acc = acc @ concat (map g xs)"
  using assms by (induction xs arbitrary: acc) simp_all

lemma weekly_hours:
  "fold (weeklyEntry br lib now tz day hour p k) hs acc
     = acc @ concat (map (\<lambda>h. weeklyEntry br lib now tz day hour p k h []) hs)"
  by (rule fold_push) (rule weeklyEntry_acc)

lemma specific_hours:
  "fold (specificEntry br lib tz day hour sd p k) hs acc
     = acc @ concat (map (\<lambda>h. specificEntry br lib tz day hour sd p k h []) hs)"
  by (rule fold_push) (rule specificEntry_acc)

lemma weekly_days:
  "fold (\<lambda>(k, hs) acc. fold (weeklyEntry br lib now tz day hour p k) hs acc) es acc
     = acc @ concat (map (\<lambda>(k, hs). concat (map (\<lambda>h. weeklyEntry br lib now tz day hour p k h []) hs)) es)"
  by (rule fold_push) (simp add: weekly_hours split: prod.splits)

lemma specific_days:
  "fold (\<lambda>(k, hs) acc. fold (specificEntry br lib tz day hour sd p k) hs acc) es acc
     = acc @ concat (map (\<lambda>(k, hs). concat (map (\<lambda>h. specificEntry br lib tz day hour sd p k h []) hs)) es)"
  by (rule fold_push) (simp add: specific_hours split: prod.splits)

lemma concat_map_single:
  "concat (map (\<lambda>x. if P x then [p] else []) xs) = map (\<lambda>e. p) (filter P xs)"
  by (induction xs) simp_all

lemma weekly_contribution:
  assumes "availabilityType p = weekly" "\<not> truthy sd"
  shows "concat (map (\<lambda>(k, hs). concat (map (\<lambda>h. weeklyEntry br lib now tz day hour p k h []) hs))
           (availability p)) = contribution br lib now tz day hour sd p"
proof -
  have one: "weeklyEntry br lib now tz day hour p k h []
      = (if entryMatches br lib now tz day hour sd p k h then [p] else [])" for k h
    using assms weeklyEntry_cases [of br lib now tz day hour p k h]
    by (auto simp: entryMatches_def)
  have "concat (map (\<lambda>(k, hs). concat (map (\<lambda>h. weeklyEntry br lib now tz day hour p k h []) hs)) es)
      = map (\<lambda>e. p) (filter (\<lambda>(k, h). entryMatches br lib now tz day hour sd p k h)
          (concat (map (\<lambda>(k, hs). map (Pair k) hs) es)))" for es
  proof (induction es)
    case Nil
    show ?case by simp
  next
    case (Cons e es)
    obtain k hs where e: "e = (k, hs)" by (cases e)
    have "concat (map (\<lambda>h. weeklyEntry br lib now tz day hour p k h []) hs)
        = map (\<lambda>e. p) (filter (\<lambda>(k, h). entryMatches br lib now tz day hour sd p k h) (map (Pair k) hs))"
      by (induction hs) (simp_all add: one)
    with Cons e show ?case by simp
  qed
  then show ?thesis by (simp add: contribution_def entries_def)
qed

lemma specific_contribution:
  assumes "availabilityType p = specific" "sd = Some s" "s \<noteq> []"
  shows "concat (map (\<lambda>(k, hs). concat (map (\<lambda>h. specificEntry br lib tz day hour s p k h []) hs))
           (availability p)) = contribution br lib now tz day hour sd p"
proof -
  have one: "specificEntry br lib tz day hour s p k h []
      = (if entryMatches br lib now tz day hour sd p k h then [p] else [])" for k h
    using assms specificEntry_cases [of br lib tz day hour s p k h]
    by (auto simp: entryMatches_def truthy_def)
  have "concat (map (\<lambda>(k, hs). concat (map (\<lambda>h. specificEntry br lib tz day hour s p k h []) hs)) es)
      = map (\<lambda>e. p) (filter (\<lambda>(k, h). entryMatches br lib now tz day hour sd p k h)
          (concat (map (\<lambda>(k, hs). map (Pair k) hs) es)))" for es
  proof (induction es)
    case Nil
    show ?case by simp
  next
    case (Cons e es)
    obtain k hs where e: "e = (k, hs)" by (cases e)
    have "concat (map (\<lambda>h. specificEntry br lib tz day hour s p k h []) hs)
        = map (\<lambda>e. p) (filter (\<lambda>(k, h). entryMatches br lib now tz day hour sd p k h) (map (Pair k) hs))"
      by (induction hs) (simp_all add: one)
    with Cons e show ?case by simp
  qed
  then show ?thesis by (simp add: contribution_def entries_def)
qed

lemma other_contribution:
  assumes "\<not> (availabilityType p = weekly \<and> \<not> truthy sd)"
          "\<not> (availabilityType p = specific \<and> truthy sd)"
  shows "contribution br lib now tz day hour sd p = []"
  using assms by (simp add: contribution_def entryMatches_def)

lemma participant_step:
  "(if availabilityType p = weekly \<and> \<not> truthy sd
    then fold (\<lambda>(k, hs) acc. fold (weeklyEntry br lib now tz day hour p k) hs acc) (availability p) acc
    else if availabilityType p = specific \<and> truthy sd
    then (case sd of
            None \<Rightarrow> acc
          | Some s \<Rightarrow> fold (\<lambda>(k, hs) acc. fold (specificEntry br lib tz day hour s p k) hs acc)
                       (availability p) acc)
    else acc) = acc @ contribution br lib now tz day hour sd p"
proof (cases "availabilityType p = weekly \<and> \<not> truthy sd")
  case True
  then show ?thesis by (simp add: weekly_days weekly_contribution)
next
  case False
  show ?thesis
  proof (cases "availabilityType p = specific \<and> truthy sd")
    case True
    then obtain s where s: "sd = Some s" "s \<noteq> []"
      by (auto simp: truthy_def split: option.splits)
    with True False show ?thesis
      by (simp add: specific_days specific_contribution truthy_def)
  next
    case F2: False
    have "contribution br lib now tz day hour sd p = []"
      using False F2 by (intro other_contribution)
    then show ?thesis using False F2 by auto
  qed
qed

lemma members_concat:
  "participants_of (getAvailabilityData br lib now ps tz day hour sd)
     = concat (map (contribution br lib now tz day hour sd) ps)"
proof -
  have "fold (\<lambda>p acc.
           if availabilityType p = weekly \<and> \<not> truthy sd
           then fold (\<lambda>(k, hs) acc. fold (weeklyEntry br lib now tz day hour p k) hs acc) (availability p) acc
           else if availabilityType p = specific \<and> truthy sd
           then (case sd of
                   None \<Rightarrow> acc
                 | Some s \<Rightarrow> fold (\<lambda>(k, hs) acc. fold (specificEntry br lib tz day hour s p k) hs acc)
                              (availability p) acc)
           else acc) ps acc
        = acc @ concat (map (contribution br lib now tz day hour sd) ps)" for acc
    by (rule fold_push) (rule participant_step)
  from this [of "[]"] show ?thesis
    by (simp add: getAvailabilityData_def Let_def)
qed


section \<open>The full-coverage label\<close>

lemma count_is_length:
  "count (getAvailabilityData br lib now ps tz day hour sd)
     = length (participants_of (getAvailabilityData br lib now ps tz day hour sd))"
  by (simp add: getAvailabilityData_def Let_def)

lemma no_participants_no_members:
  "participants_of (getAvailabilityData br lib now [] tz day hour sd) = []"
  by (simp add: members_concat)

text \<open>
  C3. For every participant list, clock, browser zone, zone library and cell: when there
  is at least one participant, the cell shows the full-coverage label exactly when its
  membership count equals the number of participants; with no participant at all, no
  cell shows it.
\<close>

theorem full_coverage_iff_count_is_total:
  "(participants \<noteq> [] \<longrightarrow>
      isFullCoverage (renderTimeSlot br lib now participants tz day hour sd)
        = (count (getAvailabilityData br lib now participants tz day hour sd) = length participants))
   \<and> \<not> isFullCoverage (renderTimeSlot br lib now [] tz day hour sd)"
  by (simp add: renderTimeSlot_def isFullCoverage_def Let_def count_is_length
        no_participants_no_members)


lemma alice_monday_9:
  "participants_of (getAvailabilityData hostUTC lib2024 now2024 [alice] ''UTC'' ''Monday'' 9 None) = [alice]"
  by code_simp

theorem full_coverage_iff_count_is_total_witness:
  "[alice] \<noteq> []
   \<and> isFullCoverage (renderTimeSlot hostUTC lib2024 now2024 [alice] ''UTC'' ''Monday'' 9 None)
   \<and> count (getAvailabilityData hostUTC lib2024 now2024 [alice] ''UTC'' ''Monday'' 9 None) = length [alice]"
  using full_coverage_iff_count_is_total [of "[alice]" hostUTC lib2024 now2024 "''UTC''" "''Monday''" 9 None]
  by (simp add: count_is_length alice_monday_9)

section \<open>The dates of the specific-date grid\<close>

lemma set_set_add: "set (set_add xs x) = insert x (set xs)"
  by (auto simp: set_add_def)

lemma distinct_set_add: "distinct xs \<Longrightarrow> distinct (set_add xs x)"
  by (simp add: set_add_def)

lemma set_fold_hours:
  "set (fold (\<lambda>h acc. set_add acc (f h)) hs acc) = set acc \<union> f ` set hs"
  by (induction hs arbitrary: acc) (auto simp: set_set_add)

lemma distinct_fold_hours:
  "distinct acc \<Longrightarrow> distinct (fold (\<lambda>h acc. set_add acc (f h)) hs acc)"
  by (induction hs arbitrary: acc) (simp_all add: distinct_set_add)

lemma set_fold_entries:
  "set (fold (\<lambda>(k, hs) acc. fold (\<lambda>h acc. set_add acc (f k h)) hs acc) es acc)
     = set acc \<union> {f k h | k hs h. (k, hs) \<in> set es \<and> h \<in> set hs}"
proof (induction es arbitrary: acc)
  case Nil
  show ?case by simp
next
  case (Cons e es)
  obtain k hs where e: "e = (k, hs)" by (cases e)
  show ?case
    unfolding e by (simp add: Cons.IH set_fold_hours) blast
qed

lemma distinct_fold_entries:
  "distinct acc \<Longrightarrow>
     distinct (fold (\<lambda>(k, hs) acc. fold (\<lambda>h acc. set_add acc (f k h)) hs acc) es acc)"
proof (induction es arbitrary: acc)
  case Nil
  then show ?case by simp
next
  case (Cons e es)
  obtain k hs where e: "e = (k, hs)" by (cases e)
  from Cons show ?case
    unfolding e by (simp add: distinct_fold_hours)
qed


lemma set_collectDates:
  "set (collectDates br lib tz ps acc)
     = set acc \<union> {conv_date (convertTimeSlotSpecific br lib (timezone p) tz k h) | p k hs h.
                     p \<in> set ps \<and> availabilityType p = specific
                     \<and> (k, hs) \<in> set (availability p) \<and> h \<in> set hs}"
proof (induction ps arbitrary: acc)
  case Nil
  show ?case by (simp add: collectDates_def)
next
  case (Cons p ps)
  have step: "collectDates br lib tz (p # ps) acc
      = collectDates br lib tz ps
          (if availabilityType p = specific
           then fold (\<lambda>(k, hs) acc. fold (\<lambda>h acc. set_add acc
                        (conv_date (convertTimeSlotSpecific br lib (timezone p) tz k h))) hs acc)
                  (availability p) acc
           else acc)"
    by (simp add: collectDates_def)
  show ?case
  proof (cases "availabilityType p = specific")
    case True
    then show ?thesis
      unfolding step by (simp add: Cons.IH set_fold_entries) blast
  next
    case False
    then show ?thesis
      unfolding step by (simp add: Cons.IH) blast
  qed
qed

lemma distinct_collectDates:
  "distinct acc \<Longrightarrow> distinct (collectDates br lib tz ps acc)"
proof (induction ps arbitrary: acc)
  case Nil
  then show ?case by (simp add: collectDates_def)
next
  case (Cons p ps)
  have step: "collectDates br lib tz (p # ps) acc
      = collectDates br lib tz ps
          (if availabilityType p = specific
           then fold (\<lambda>(k, hs) acc. fold (\<lambda>h acc. set_add acc
                        (conv_date (convertTimeSlotSpecific br lib (timezone p) tz k h))) hs acc)
                  (availability p) acc
           else acc)"
    by (simp add: collectDates_def)
  from Cons show ?case
    unfolding step by (simp add: distinct_fold_entries)
qed

lemma getAllPossibleDates_collect:
  "getAllPossibleDates br lib ps tz = sort (collectDates br lib tz ps [])"
  by (simp add: getAllPossibleDates_def collectDates_def)

text \<open>
  C6. The dates returned by \<^verbatim>\<open>getAllPossibleDates\<close> are in ascending order (the order of
  strings by code units, which on ISO dates is the order of time), without duplicates,
  and they are exactly the dates that \<^verbatim>\<open>convertTimeSlotSpecific\<close> returns for the
  entries of the participants whose availability type is specific: none is left out
  and none is added.
\<close>

theorem getAllPossibleDates_exact:
  "sorted (getAllPossibleDates br lib participants userTimezone)
   \<and> distinct (getAllPossibleDates br lib participants userTimezone)
   \<and> set (getAllPossibleDates br lib participants userTimezone)
       = {conv_date (convertTimeSlotSpecific br lib (timezone p) userTimezone dateKey hour)
            | p dateKey hours hour.
              p \<in> set participants \<and> availabilityType p = specific
              \<and> (dateKey, hours) \<in> set (availability p) \<and> hour \<in> set hours}"
  by (simp add: getAllPossibleDates_collect set_collectDates distinct_collectDates)


section \<open>Membership of a cell\<close>

text \<open>
  C4. Two entries of one participant in one cell. On Sunday 27 October 2024 London
  leaves summer time at 01:00 UTC, so 00:00 UTC and 01:00 UTC are both 01:00 in London.
  \<open>bob\<close>, in UTC and free on Sunday at 0 and at 1, is pushed twice into the cell of
  Sunday at 1 seen from London: \<^verbatim>\<open>getAvailabilityData\<close> pushes on every matching entry
  and never looks whether the participant is in the list already. The cell then has two
  segments for one participant and shows 2 of 1 available; when \<open>alice\<close>, who is not
  free in that cell, is added to the list, the count 2 equals the number of participants
  and the cell is labelled \<^verbatim>\<open>all\<close>.
\<close>

theorem participant_listed_twice:
  "participants_of
       (getAvailabilityData hostUTC lib2024 now2024 [bob] ''Europe/London'' ''Sunday'' 1 None)
     = [bob, bob]
   \<and> renderTimeSlot hostUTC lib2024 now2024 [bob] ''Europe/London'' ''Sunday'' 1 None
     = Cell [bob, bob] 2 False
   \<and> participants_of
       (getAvailabilityData hostUTC lib2024 now2024 [bob, alice] ''Europe/London'' ''Sunday'' 1 None)
     = [bob, bob]
   \<and> renderTimeSlot hostUTC lib2024 now2024 [bob, alice] ''Europe/London'' ''Sunday'' 1 None
     = Cell [bob, bob] 2 True"
  by code_simp


section \<open>Entries one by one\<close>

lemma indexOf_ge: "- 1 \<le> indexOf xs x"
  by (induction xs) (simp_all add: Let_def)

lemma indexOf_absent: "(indexOf xs x = - 1) = (x \<notin> set xs)"
proof (induction xs)
  case Nil
  show ?case by simp
next
  case (Cons y ys)
  have "- 1 \<le> indexOf ys x" by (rule indexOf_ge)
  with Cons show ?case by (auto simp: Let_def)
qed

lemma weeklyEntry_pushes:
  "timezone p = timezone q \<Longrightarrow>
     (weeklyEntry br lib now tz day hour p k h [] = [p]) = (weeklyEntry br lib now tz day hour q k h [] = [q])"
  by (simp add: weeklyEntry_def Let_def split: sum.splits)

lemma specificEntry_pushes:
  "timezone p = timezone q \<Longrightarrow>
     (specificEntry br lib tz day hour sd p k h [] = [p]) = (specificEntry br lib tz day hour sd q k h [] = [q])"
  by (simp add: specificEntry_def Let_def)

lemma entryMatches_same_zone:
  assumes "timezone p = timezone q" "availabilityType p = availabilityType q"
  shows "entryMatches br lib now tz day hour sd p k h = entryMatches br lib now tz day hour sd q k h"
  using assms weeklyEntry_pushes [OF assms(1), of br lib now tz day hour k h]
    specificEntry_pushes [OF assms(1), of br lib tz day hour _ k h]
  by (simp add: entryMatches_def split: option.splits)

lemma names_concat:
  "participantNames (getAvailabilityData br lib now ps tz day hour sd)
     = concat (map (\<lambda>p. map (\<lambda>e. name p)
         (filter (\<lambda>(k, h). entryMatches br lib now tz day hour sd p k h) (entries p))) ps)"
proof -
  have "participantNames (getAvailabilityData br lib now ps tz day hour sd)
      = map name (participants_of (getAvailabilityData br lib now ps tz day hour sd))"
    by (simp add: getAvailabilityData_def Let_def)
  also have "\<dots> = concat (map (\<lambda>p. map name (contribution br lib now tz day hour sd p)) ps)"
    by (simp add: members_concat map_concat comp_def)
  finally show ?thesis
    by (simp add: contribution_def comp_def)
qed

section \<open>A zone that does not resolve\<close>

text \<open>
  The two ways a conversion can fail. When the library throws, the \<^verbatim>\<open>catch\<close> of
  \<^verbatim>\<open>convertTimeSlot\<close> returns the day and the hour it was given and writes an error.
  When the library returns an Invalid Date, nothing is thrown and nothing is caught: the
  day name is \<^verbatim>\<open>undefined\<close> and the hour \<^verbatim>\<open>NaN\<close>.
\<close>

lemma convertTimeSlot_catch:
  assumes "day \<in> set days"
      and "zonedTimeToUtc lib (DateObj (nextOccurrence br now (getDayIndex day) hour)) ptz = Inl e"
  shows "convertTimeSlot br lib now ptz utz day hour None
           = (\<lparr>slot_day = Some day, slot_hour = Some hour\<rparr>, [Error ''Error converting timezone:''])"
  using assms by (simp add: convertTimeSlot_def getDayIndex_def indexOf_absent Let_def)

lemma convertTimeSlot_no_catch:
  assumes "day \<in> set days"
      and "zonedTimeToUtc lib (DateObj (nextOccurrence br now (getDayIndex day) hour)) ptz = Inr None"
      and "utcToZonedTime lib None utz = Inr None"
  shows "convertTimeSlot br lib now ptz utz day hour None
           = (\<lparr>slot_day = None, slot_hour = None\<rparr>, [])"
  using assms
  by (simp add: convertTimeSlot_def getDayIndex_def indexOf_absent Let_def mondayIndex_def
        getDay_def getHours_def getDayName_def num_at_index_def)

text \<open>
  C2. With a zone table that, like the library the code imports, answers a zone
  identifier it cannot resolve with an Invalid Date: converting Monday 9 from the zone
  \<^verbatim>\<open>Mars/Phobos\<close> to UTC, or from UTC to that zone, returns the day \<^verbatim>\<open>undefined\<close> and the
  hour \<^verbatim>\<open>NaN\<close> and writes nothing to the console, and not the day and hour given;
  \<^verbatim>\<open>convertTimeSlotSpecific\<close> returns the date text \<^verbatim>\<open>NaN-NaN-NaN\<close> with the hour
  \<^verbatim>\<open>NaN\<close>; and so does \<^verbatim>\<open>convertTimeSlot\<close> for a specific date that is no date.
\<close>

theorem unresolvable_zone_gives_NaN:
  "convertTimeSlot hostUTC lib2024 now2024 ''Mars/Phobos'' ''UTC'' ''Monday'' 9 None
     = (\<lparr>slot_day = None, slot_hour = None\<rparr>, [])
   \<and> convertTimeSlot hostUTC lib2024 now2024 ''UTC'' ''Mars/Phobos'' ''Monday'' 9 None
     = (\<lparr>slot_day = None, slot_hour = None\<rparr>, [])
   \<and> convertTimeSlotSpecific hostUTC lib2024 ''Mars/Phobos'' ''UTC'' ''2024-07-04'' 9
     = \<lparr>conv_date = ''NaN-NaN-NaN'', conv_hour = None, conv_dayName = None\<rparr>
   \<and> convertTimeSlot hostUTC lib2024 now2024 ''UTC'' ''UTC'' ''Monday'' 9 (Some ''someday'')
     = (\<lparr>slot_day = None, slot_hour = None\<rparr>, [])"
  by code_simp


section \<open>Entries with an unknown weekday name\<close>

lemma names_weekly_concat:
  "participantNames (getAvailabilityData_weekly br lib now ps tz day hour)
     = concat (map (\<lambda>p. map (\<lambda>e. name p)
         (filter (\<lambda>(k, h). entryMatches_weekly br lib now tz day hour p k h) (entries p))) ps)"
proof -
  let ?hourStep = "\<lambda>p k h acc.
        (let conv = fst (convertTimeSlot br lib now (timezone p) tz k h None)
         in if slot_day conv = Some day \<and> slot_hour conv = Some hour then acc @ [p] else acc)"
  have hourStep: "?hourStep p k h acc
      = acc @ (if entryMatches_weekly br lib now tz day hour p k h then [p] else [])" for p k h acc
    by (simp add: entryMatches_weekly_def Let_def)
  have hours: "fold (?hourStep p k) hs acc
      = acc @ concat (map (\<lambda>h. if entryMatches_weekly br lib now tz day hour p k h then [p] else []) hs)"
    for p k hs acc
    by (rule fold_push) (rule hourStep)
  have hours': "concat (map (\<lambda>h. if entryMatches_weekly br lib now tz day hour p k h then [p] else []) hs)
      = map (\<lambda>e. p) (filter (\<lambda>(k, h). entryMatches_weekly br lib now tz day hour p k h) (map (Pair k) hs))"
    for p k hs
    by (induction hs) simp_all
  have entriesStep: "fold (\<lambda>(k, hs) acc. fold (?hourStep p k) hs acc) es acc
      = acc @ concat (map (\<lambda>(k, hs). map (\<lambda>e. p)
          (filter (\<lambda>(k, h). entryMatches_weekly br lib now tz day hour p k h) (map (Pair k) hs))) es)"
    for p es acc
    by (rule fold_push) (simp add: hours hours' split: prod.splits)
  have flat: "concat (map (\<lambda>(k, hs). map (\<lambda>e. p)
          (filter (\<lambda>(k, h). entryMatches_weekly br lib now tz day hour p k h) (map (Pair k) hs))) es)
      = map (\<lambda>e. p) (filter (\<lambda>(k, h). entryMatches_weekly br lib now tz day hour p k h)
          (concat (map (\<lambda>(k, hs). map (Pair k) hs) es)))" for p es
    by (induction es) auto
  have all: "fold (\<lambda>p acc. fold (\<lambda>(k, hs) acc. fold (?hourStep p k) hs acc) (availability p) acc) ps acc
      = acc @ concat (map (\<lambda>p. map (\<lambda>e. p)
          (filter (\<lambda>(k, h). entryMatches_weekly br lib now tz day hour p k h) (entries p))) ps)" for acc
    by (rule fold_push) (simp add: entriesStep flat entries_def)
  have "participants_of (getAvailabilityData_weekly br lib now ps tz day hour)
      = concat (map (\<lambda>p. map (\<lambda>e. p)
          (filter (\<lambda>(k, h). entryMatches_weekly br lib now tz day hour p k h) (entries p))) ps)"
    using all [of "[]"] by (simp add: getAvailabilityData_weekly_def Let_def)
  moreover have "participantNames (getAvailabilityData_weekly br lib now ps tz day hour)
      = map name (participants_of (getAvailabilityData_weekly br lib now ps tz day hour))"
    by (simp add: getAvailabilityData_weekly_def Let_def)
  ultimately show ?thesis
    by (simp add: map_concat comp_def)
qed

lemma convertTimeSlot_invalid_day:
  assumes "day \<notin> set days"
  shows "convertTimeSlot br lib now ptz utz day hour None
           = (\<lparr>slot_day = Some day, slot_hour = Some hour\<rparr>, [Warn (''Invalid day name: '' @ day)])"
  using assms by (simp add: convertTimeSlot_def getDayIndex_def indexOf_absent Let_def)

lemma entryMatches_invalid_day:
  assumes "day \<notin> set days" "availabilityType p = weekly"
  shows "\<not> entryMatches br lib now tz cday chour csd p day h"
  using assms by (simp add: entryMatches_def weeklyEntry_def indexOf_absent Let_def)

lemma entryMatches_weekly_invalid_day:
  assumes "day \<notin> set days" "cday \<in> set days"
  shows "\<not> entryMatches_weekly br lib now tz cday chour p day h"
  using assms by (auto simp: entryMatches_weekly_def convertTimeSlot_invalid_day)

lemma entries_split:
  assumes "availability p = es1 @ (day, hs) # es2"
  shows "entries p = entries (p\<lparr>availability := es1\<rparr>) @ map (Pair day) hs
                       @ entries (p\<lparr>availability := es2\<rparr>)"
    and "entries (p\<lparr>availability := es1 @ es2\<rparr>)
           = entries (p\<lparr>availability := es1\<rparr>) @ entries (p\<lparr>availability := es2\<rparr>)"
  using assms by (simp_all add: entries_def)

lemma filter_none: "(\<And>x. x \<in> set xs \<Longrightarrow> \<not> P x) \<Longrightarrow> filter P xs = []"
  by (induction xs) simp_all

lemma entryMatches_weekly_same_zone:
  "timezone p = timezone q \<Longrightarrow>
     entryMatches_weekly br lib now tz day hour p k h = entryMatches_weekly br lib now tz day hour q k h"
  by (simp add: entryMatches_weekly_def)

lemma skip_invalid_day:
  assumes "day \<notin> set days" "availabilityType p = weekly" "availability p = es1 @ (day, hs) # es2"
  shows "participantNames (getAvailabilityData br lib now (ps1 @ p # ps2) tz cday chour csd)
       = participantNames
           (getAvailabilityData br lib now (ps1 @ p\<lparr>availability := es1 @ es2\<rparr> # ps2) tz cday chour csd)"
proof -
  let ?M = "\<lambda>q (k, h). entryMatches br lib now tz cday chour csd q k h"
  have same: "?M (p\<lparr>availability := es1 @ es2\<rparr>) = ?M p"
    by (intro ext) (simp add: entryMatches_same_zone [of "p\<lparr>availability := es1 @ es2\<rparr>" p] split: prod.splits)
  have none: "filter (?M p) (map (Pair day) hs) = []"
    by (rule filter_none) (auto simp: entryMatches_invalid_day [OF assms(1,2)])
  have "filter (?M p) (entries p) = filter (?M p) (entries (p\<lparr>availability := es1 @ es2\<rparr>))"
    by (simp add: entries_split [OF assms(3)] none)
  then show ?thesis
    by (simp add: names_concat same)
qed

lemma skip_invalid_day_weekly:
  assumes "day \<notin> set days" "cday \<in> set days" "availability p = es1 @ (day, hs) # es2"
  shows "participantNames (getAvailabilityData_weekly br lib now (ps1 @ p # ps2) tz cday chour)
       = participantNames
           (getAvailabilityData_weekly br lib now (ps1 @ p\<lparr>availability := es1 @ es2\<rparr> # ps2) tz cday chour)"
proof -
  let ?M = "\<lambda>q (k, h). entryMatches_weekly br lib now tz cday chour q k h"
  have same: "?M (p\<lparr>availability := es1 @ es2\<rparr>) = ?M p"
    by (intro ext) (simp add: entryMatches_weekly_same_zone [of "p\<lparr>availability := es1 @ es2\<rparr>" p] split: prod.splits)
  have none: "filter (?M p) (map (Pair day) hs) = []"
    by (rule filter_none) (auto simp: entryMatches_weekly_invalid_day [OF assms(1,2)])
  have "filter (?M p) (entries p) = filter (?M p) (entries (p\<lparr>availability := es1 @ es2\<rparr>))"
    by (simp add: entries_split [OF assms(3)] none)
  then show ?thesis
    by (simp add: names_weekly_concat same)
qed

text \<open>
  C1 (as amended). For a raw weekly entry whose weekday name is not one of the seven
  names, \<^verbatim>\<open>convertTimeSlot\<close> writes a warning and returns the entry as it is, and the
  entry is skipped by the aggregation: the names (and so the count) of every cell are
  those of the same participant list without the entry, in \<^verbatim>\<open>getAvailabilityData\<close>
  for every cell, and in the earlier \<^verbatim>\<open>getAvailabilityData\<close> built on
  \<^verbatim>\<open>convertTimeSlot\<close> for every cell of the grid, whose day is one of the seven names.
\<close>

theorem invalid_weekday_is_skipped:
  "(day \<notin> set days \<longrightarrow>
     convertTimeSlot br lib now ptz utz day hour None
       = (\<lparr>slot_day = Some day, slot_hour = Some hour\<rparr>, [Warn (''Invalid day name: '' @ day)])
     \<and> (availabilityType p = weekly \<and> availability p = es1 @ (day, hs) # es2 \<longrightarrow>
          participantNames (getAvailabilityData br lib now (ps1 @ p # ps2) utz cday chour csd)
            = participantNames (getAvailabilityData br lib now
                (ps1 @ p\<lparr>availability := es1 @ es2\<rparr> # ps2) utz cday chour csd))
     \<and> (cday \<in> set days \<and> availability p = es1 @ (day, hs) # es2 \<longrightarrow>
          participantNames (getAvailabilityData_weekly br lib now (ps1 @ p # ps2) utz cday chour)
            = participantNames (getAvailabilityData_weekly br lib now
                (ps1 @ p\<lparr>availability := es1 @ es2\<rparr> # ps2) utz cday chour)))"
  using convertTimeSlot_invalid_day [of day br lib now ptz utz hour]
    skip_invalid_day [of day p es1 hs es2 br lib now ps1 ps2 utz cday chour csd]
    skip_invalid_day_weekly [of day cday p es1 hs es2 br lib now ps1 ps2 utz chour]
  by blast

theorem invalid_weekday_is_skipped_witness:
  "''Funday'' \<notin> set days
   \<and> convertTimeSlot hostUTC lib2024 now2024 ''UTC'' ''UTC'' ''Funday'' 9 None
       = (\<lparr>slot_day = Some ''Funday'', slot_hour = Some 9\<rparr>, [Warn ''Invalid day name: Funday''])
   \<and> availabilityType erin = weekly
   \<and> availability erin = [] @ (''Funday'', [9]) # [(''Monday'', [9])]
   \<and> participantNames (getAvailabilityData hostUTC lib2024 now2024 ([] @ erin # []) ''UTC'' ''Monday'' 9 None)
       = participantNames (getAvailabilityData hostUTC lib2024 now2024
           ([] @ erin\<lparr>availability := [] @ [(''Monday'', [9])]\<rparr> # []) ''UTC'' ''Monday'' 9 None)
   \<and> ''Monday'' \<in> set days
   \<and> participantNames (getAvailabilityData_weekly hostUTC lib2024 now2024 ([] @ erin # []) ''UTC'' ''Monday'' 9)
       = participantNames (getAvailabilityData_weekly hostUTC lib2024 now2024
           ([] @ erin\<lparr>availability := [] @ [(''Monday'', [9])]\<rparr> # []) ''UTC'' ''Monday'' 9)"
  using invalid_weekday_is_skipped
          [of "''Funday''" hostUTC lib2024 now2024 "''UTC''" "''UTC''" 9 erin "[]" "[9]"
              "[(''Monday'', [9])]" "[]" "[]" "''Monday''" 9 None]
  by (simp add: days_def erin_def)

text \<open>
  An hour outside 0..23 is neither reported nor skipped: the entry Monday 24 of
  \<open>carol\<close> is counted in the cell of Tuesday at 0 by both aggregations, and
  \<^verbatim>\<open>convertTimeSlot\<close> converts it to Tuesday 0 and writes nothing to the console.
\<close>

theorem hour_out_of_range_counterexample:
  "availability carol = [(''Monday'', [24])]
   \<and> participantNames (getAvailabilityData hostUTC lib2024 now2024 [carol] ''UTC'' ''Tuesday'' 0 None)
     = [''Carol'']
   \<and> participantNames (getAvailabilityData_weekly hostUTC lib2024 now2024 [carol] ''UTC'' ''Tuesday'' 0)
     = [''Carol'']
   \<and> convertTimeSlot hostUTC lib2024 now2024 ''UTC'' ''UTC'' ''Monday'' 24 None
     = (\<lparr>slot_day = Some ''Tuesday'', slot_hour = Some 0\<rparr>, [])"
  by code_simp


section \<open>Scenario B: Los Angeles seen from London\<close>

lemma pad_23: "padStart 2 CHR ''0'' (toString 23) = ''23''"
  by code_simp

lemma fields_2024_07_05_07:
  "YearFromTime (mkDate 2024 7 5 7) = 2024"
  "MonthFromTime (mkDate 2024 7 5 7) = 6"
  "DateFromTime (mkDate 2024 7 5 7) = 5"
  "HourFromTime (mkDate 2024 7 5 7) = 7"
  "WeekDay (mkDate 2024 7 5 7) = 5"
  by code_simp+

lemma text_2024_07_05:
  "num_toString (Some 2024) = ''2024''"
  "padStart 2 CHR ''0'' (num_toString (num_add (Some 6) (Some 1))) = ''07''"
  "padStart 2 CHR ''0'' (num_toString (Some 5)) = ''05''"
  by code_simp+

lemma friday: "num_at_index days (Some 4) = Some ''Friday''"
  by code_simp

text \<open>
  C8. With a zone library for which 23:00 on 4 July 2024 in America/Los_Angeles is the
  instant 06:00 UTC of 5 July (daylight time, UTC-7) and which shows that instant in
  Europe/London as a date that reads 07:00 of 5 July in the browser (summer time,
  UTC+1), converting the slot (2024-07-04, 23) from Los Angeles to London gives the
  date 2024-07-05 and the hour 7, a Friday, whatever the zone of the browser.
\<close>

theorem scenario_B_los_angeles_to_london:
  "zonedTimeToUtc lib (DateStr ''2024-07-04T23:00:00'') ''America/Los_Angeles''
     = Inr (Some (mkDate 2024 7 5 6))
   \<and> utcToZonedTime lib (Some (mkDate 2024 7 5 6)) ''Europe/London'' = Inr (Some d)
   \<and> LocalTime br d = mkDate 2024 7 5 7
   \<longrightarrow> convertTimeSlotSpecific br lib ''America/Los_Angeles'' ''Europe/London'' ''2024-07-04'' 23
         = \<lparr>conv_date = ''2024-07-05'', conv_hour = Some 7, conv_dayName = Some ''Friday''\<rparr>"
proof (intro impI, elim conjE)
  assume toUtc: "zonedTimeToUtc lib (DateStr ''2024-07-04T23:00:00'') ''America/Los_Angeles''
      = Inr (Some (mkDate 2024 7 5 6))"
    and toZoned: "utcToZonedTime lib (Some (mkDate 2024 7 5 6)) ''Europe/London'' = Inr (Some d)"
    and shown: "LocalTime br d = mkDate 2024 7 5 7"
  have wall: "''2024-07-04'' @ ''T'' @ padStart 2 CHR ''0'' (toString 23) @ '':00:00''
      = ''2024-07-04T23:00:00''"
    by (simp add: pad_23)
  have fields: "getFullYear br (Some d) = Some 2024" "getMonth br (Some d) = Some 6"
      "getDate br (Some d) = Some 5" "getHours br (Some d) = Some 7"
      "mondayIndex br (Some d) = Some 4"
    by (simp_all add: getFullYear_def getMonth_def getDate_def getHours_def mondayIndex_def
          getDay_def shown fields_2024_07_05_07)
  show "convertTimeSlotSpecific br lib ''America/Los_Angeles'' ''Europe/London'' ''2024-07-04'' 23
      = \<lparr>conv_date = ''2024-07-05'', conv_hour = Some 7, conv_dayName = Some ''Friday''\<rparr>"
    unfolding convertTimeSlotSpecific_def Let_def wall
    by (simp add: toUtc toZoned fields text_2024_07_05 friday)
qed

lemma lib2024NewYork_scenario_B:
  "zonedTimeToUtc lib2024NewYork (DateStr ''2024-07-04T23:00:00'') ''America/Los_Angeles''
     = Inr (Some (mkDate 2024 7 5 6))"
  "utcToZonedTime lib2024NewYork (Some (mkDate 2024 7 5 6)) ''Europe/London''
     = Inr (Some (mkDate 2024 7 5 11))"
  "LocalTime hostNewYork (mkDate 2024 7 5 11) = mkDate 2024 7 5 7"
  by code_simp+

theorem scenario_B_los_angeles_to_london_witness:
  "zonedTimeToUtc lib2024NewYork (DateStr ''2024-07-04T23:00:00'') ''America/Los_Angeles''
     = Inr (Some (mkDate 2024 7 5 6))
   \<and> utcToZonedTime lib2024NewYork (Some (mkDate 2024 7 5 6)) ''Europe/London''
     = Inr (Some (mkDate 2024 7 5 11))
   \<and> LocalTime hostNewYork (mkDate 2024 7 5 11) = mkDate 2024 7 5 7
   \<and> convertTimeSlotSpecific hostNewYork lib2024NewYork ''America/Los_Angeles'' ''Europe/London''
         ''2024-07-04'' 23
       = \<lparr>conv_date = ''2024-07-05'', conv_hour = Some 7, conv_dayName = Some ''Friday''\<rparr>"
  using scenario_B_los_angeles_to_london [of lib2024NewYork "mkDate 2024 7 5 11" hostNewYork]
    lib2024NewYork_scenario_B
  by simp

section \<open>Daylight saving time\<close>

lemma getTimezoneOffset_round_trip:
  assumes "utcToZonedTime lib (Some date) tz = Inr zoned"
      and "zonedTimeToUtc lib (DateObj zoned) tz = Inr (Some date)"
  shows "getTimezoneOffset lib (Some date) tz = Inr (Some 0)"
  using assms by (simp add: getTimezoneOffset_def Let_def)

lemma isDaylightSavingTime_round_trip:
  assumes "utcToZonedTime lib (Some date) tz = Inr zoned"
      and "zonedTimeToUtc lib (DateObj zoned) tz = Inr (Some date)"
      and "newDate3 br (getFullYear br (Some date)) (Some 0) (Some 1) = Some winter"
      and "utcToZonedTime lib (Some winter) tz = Inr zoned'"
      and "zonedTimeToUtc lib (DateObj zoned') tz = Inr (Some winter)"
  shows "\<not> isDaylightSavingTime br lib (Some date) tz"
  using getTimezoneOffset_round_trip [OF assms(1,2)] getTimezoneOffset_round_trip [OF assms(4,5)]
    assms(3)
  by (simp add: isDaylightSavingTime_def Let_def strict_neq_def)

text \<open>
  C5. At noon UTC on 1 July 2024 the offset of Europe/London is one hour, on 1 January
  2024 it is zero, and \<^verbatim>\<open>isDaylightSavingTime\<close> returns false, in a browser in UTC and
  in one in New York: \<^verbatim>\<open>getTimezoneOffset\<close> converts the instant to the zone and back
  and so measures zero at both dates.
\<close>

theorem isDaylightSavingTime_london_july:
  "utcToZonedTime lib2024 (Some (mkDate 2024 7 1 12)) ''Europe/London''
     = Inr (Some (mkDate 2024 7 1 13))
   \<and> utcToZonedTime lib2024 (Some (mkDate 2024 1 1 0)) ''Europe/London''
     = Inr (Some (mkDate 2024 1 1 0))
   \<and> getTimezoneOffset lib2024 (Some (mkDate 2024 7 1 12)) ''Europe/London'' = Inr (Some 0)
   \<and> getTimezoneOffset lib2024 (Some (mkDate 2024 1 1 0)) ''Europe/London'' = Inr (Some 0)
   \<and> isDaylightSavingTime hostUTC lib2024 (Some (mkDate 2024 7 1 12)) ''Europe/London'' = False
   \<and> isDaylightSavingTime hostNewYork lib2024NewYork (Some (mkDate 2024 7 1 12)) ''Europe/London''
       = False"
  by code_simp


section \<open>The hour of getLocalTimeParts\<close>

lemma digit_not_space_or_sign:
  "isDigit c \<Longrightarrow> \<not> isSpace c \<and> c \<noteq> CHR ''-'' \<and> c \<noteq> CHR ''+''"
  by (auto simp: isDigit_def isSpace_def less_eq_char_def)

lemma digits_fold_nonneg:
  "list_all isDigit ds \<Longrightarrow> 0 \<le> acc \<Longrightarrow>
     0 \<le> fold (\<lambda>c n. 10 * n + (int (of_char c) - 48)) ds acc"
proof (induction ds arbitrary: acc)
  case Nil
  then show ?case by simp
next
  case (Cons c ds)
  from Cons.prems have "48 \<le> (of_char c :: nat)"
    by (simp add: isDigit_def less_eq_char_def)
  then have "0 \<le> 10 * acc + (int (of_char c) - 48)"
    using Cons.prems by simp
  with Cons show ?case by simp
qed

lemma parseInt_numeral:
  assumes "numeral_text s"
  shows "parseInt s = Some (digits_to_int s) \<and> 0 \<le> digits_to_int s"
proof -
  from assms obtain c cs where s: "s = c # cs" and c: "isDigit c" and all: "list_all isDigit s"
    by (cases s) (auto simp: numeral_text_def)
  have drop: "dropWhile isSpace s = s"
    using s c digit_not_space_or_sign by simp
  have take: "takeWhile isDigit s = s"
    using all by (simp add: list_all_iff)
  have first: "hd s = c" "s \<noteq> []"
    using s by simp_all
  have "parseInt s = Some (digits_to_int s)"
    unfolding parseInt_def Let_def drop
    by (simp add: first take digit_not_space_or_sign [OF c])
  moreover have "0 \<le> digits_to_int s"
    unfolding digits_to_int_def by (rule digits_fold_nonneg [OF all]) simp
  ultimately show ?thesis by simp
qed

lemma js_rem_range: "0 \<le> n \<Longrightarrow> 0 \<le> js_rem n 24 \<and> js_rem n 24 \<le> 23"
  by (simp add: js_rem_def)

lemma parseInt_24: "parseInt ''24'' = Some 24"
  by code_simp

text \<open>
  C9 (as amended). Whenever the formatter returns parts for the date and the zone, and
  the hour among them is a text of decimal digits (or there is no hour part),
  \<^verbatim>\<open>getLocalTimeParts\<close> returns an hour between 0 and 23; the hour text \<^verbatim>\<open>24\<close> gives 0.
\<close>

theorem getLocalTimeParts_hour_in_range:
  "(formatToParts tz date = Inr parts \<and> numeral_text (part_value_or parts ''hour'' ''0'')
      \<longrightarrow> (\<exists>weekday h. getLocalTimeParts formatToParts date tz = Inr (weekday, Some h)
              \<and> 0 \<le> h \<and> h \<le> 23))
   \<and> (formatToParts tz date = Inr parts \<and> part_value_or parts ''hour'' ''0'' = ''24''
      \<longrightarrow> (\<exists>weekday. getLocalTimeParts formatToParts date tz = Inr (weekday, Some 0)))"
proof (intro conjI impI; elim conjE)
  assume parts: "formatToParts tz date = Inr parts"
    and num: "numeral_text (part_value_or parts ''hour'' ''0'')"
  from parseInt_numeral [OF num] js_rem_range
  show "\<exists>weekday h. getLocalTimeParts formatToParts date tz = Inr (weekday, Some h)
          \<and> 0 \<le> h \<and> h \<le> 23"
    by (simp add: getLocalTimeParts_def parts Let_def)
next
  assume parts: "formatToParts tz date = Inr parts"
    and h24: "part_value_or parts ''hour'' ''0'' = ''24''"
  show "\<exists>weekday. getLocalTimeParts formatToParts date tz = Inr (weekday, Some 0)"
    by (simp add: getLocalTimeParts_def parts h24 Let_def parseInt_24 js_rem_def)
qed

lemma midnight_parts:
  "tableFormat zones2024 ''Europe/London'' (Some (mkDate 2024 7 1 23))
     = Inr [(''weekday'', ''Tuesday''), (''literal'', '', ''), (''hour'', ''24'')]"
  by code_simp

lemma midnight_hour_text:
  "part_value_or [(''weekday'', ''Tuesday''), (''literal'', '', ''), (''hour'', ''24'')] ''hour'' ''0''
     = ''24''"
  by code_simp

lemma numeral_24: "numeral_text ''24''"
  by code_simp

theorem getLocalTimeParts_hour_in_range_witness:
  "tableFormat zones2024 ''Europe/London'' (Some (mkDate 2024 7 1 23))
     = Inr [(''weekday'', ''Tuesday''), (''literal'', '', ''), (''hour'', ''24'')]
   \<and> numeral_text (part_value_or
         [(''weekday'', ''Tuesday''), (''literal'', '', ''), (''hour'', ''24'')] ''hour'' ''0'')
   \<and> part_value_or [(''weekday'', ''Tuesday''), (''literal'', '', ''), (''hour'', ''24'')]
         ''hour'' ''0'' = ''24''
   \<and> (\<exists>weekday. getLocalTimeParts (tableFormat zones2024) (Some (mkDate 2024 7 1 23))
          ''Europe/London'' = Inr (weekday, Some 0))"
  using getLocalTimeParts_hour_in_range
          [of "tableFormat zones2024" "''Europe/London''" "Some (mkDate 2024 7 1 23)"
              "[(''weekday'', ''Tuesday''), (''literal'', '', ''), (''hour'', ''24'')]"]
    midnight_parts midnight_hour_text numeral_24
  by simp

text \<open>
  A zone identifier that does not resolve, and an Invalid Date: the formatter throws,
  and \<^verbatim>\<open>getLocalTimeParts\<close>, which has no \<^verbatim>\<open>try\<close>, returns no hour.
\<close>

theorem getLocalTimeParts_throws_counterexample:
  "getLocalTimeParts (tableFormat zones2024) (Some (mkDate 2024 7 1 12)) ''Europe/Londn''
     = Inl RangeError
   \<and> getLocalTimeParts (tableFormat zones2024) None ''Europe/London'' = Inl RangeError"
  by code_simp


section \<open>The calendar\<close>

lemma div_next:
  fixes a n :: int
  assumes "0 < n"
  shows "a div n \<le> (a + 1) div n" and "(a + 1) div n \<le> a div n + 1"
proof -
  show "a div n \<le> (a + 1) div n"
    using assms by (intro zdiv_mono1) simp_all
  have "(a + 1) div n \<le> (a + n) div n"
    using assms by (intro zdiv_mono1) simp_all
  also have "\<dots> = a div n + 1"
    using assms by simp
  finally show "(a + 1) div n \<le> a div n + 1" .
qed

lemma yearOfEra_next:
  assumes "0 \<le> a" "a < 146096"
  shows "yearOfEra a \<le> yearOfEra (a + 1)"
proof -
  have small: "a div 146096 = 0"
    using assms by simp
  have "a - a div 1460 + a div 36524 - a div 146096
      \<le> (a + 1) - (a + 1) div 1460 + (a + 1) div 36524 - (a + 1) div 146096"
  proof (cases "a + 1 = 146096")
    case True
    then have "a = 146095" by simp
    then show ?thesis by simp
  next
    case False
    then have "(a + 1) div 146096 = 0"
      using assms by simp
    with small div_next(2) [of 1460 a] div_next(1) [of 36524 a] show ?thesis
      by linarith
  qed
  then show ?thesis
    unfolding yearOfEra_def by (intro zdiv_mono1) simp_all
qed

lemma yearOfEra_mono:
  assumes "0 \<le> a" "a \<le> b" "b \<le> 146096"
  shows "yearOfEra a \<le> yearOfEra b"
proof -
  have "b \<le> 146096 \<longrightarrow> yearOfEra a \<le> yearOfEra b"
    using assms(2)
  proof (induction b rule: int_ge_induct)
    case base
    show ?case by simp
  next
    case (step i)
    show ?case
    proof
      assume "i + 1 \<le> 146096"
      then have "i < 146096" by simp
      moreover have "0 \<le> i" using assms(1) step.hyps by simp
      ultimately have "yearOfEra i \<le> yearOfEra (i + 1)"
        by (intro yearOfEra_next)
      moreover have "yearOfEra a \<le> yearOfEra i"
        using step.IH \<open>i < 146096\<close> by simp
      ultimately show "yearOfEra a \<le> yearOfEra (i + 1)" by simp
    qed
  qed
  with assms(3) show ?thesis by simp
qed

lemma yearOfEra_ends_all:
  "list_all (\<lambda>y. yearOfEra (yearStart y) = y \<and> yearOfEra (yearStart (y + 1) - 1) = y) [0..399]"
  by code_simp

lemma yearOfEra_ends:
  assumes "0 \<le> y" "y \<le> 399"
  shows "yearOfEra (yearStart y) = y" and "yearOfEra (yearStart (y + 1) - 1) = y"
proof -
  have "y \<in> set [0..399]"
    using assms by simp
  with yearOfEra_ends_all
  have "yearOfEra (yearStart y) = y \<and> yearOfEra (yearStart (y + 1) - 1) = y"
    unfolding list_all_iff by blast
  then show "yearOfEra (yearStart y) = y" and "yearOfEra (yearStart (y + 1) - 1) = y"
    by simp_all
qed

lemma yearStart_next:
  shows "yearStart y < yearStart (y + 1)" and "yearStart (y + 1) \<le> yearStart y + 366"
proof -
  define a where "a = y div 4"
  define a' where "a' = (y + 1) div 4"
  define b where "b = y div 100"
  define b' where "b' = (y + 1) div 100"
  have steps: "b' \<le> b + 1" "a \<le> a'" "a' \<le> a + 1" "b \<le> b'"
    using div_next [of 100 y] div_next [of 4 y] by (simp_all add: a_def a'_def b_def b'_def)
  have "365 * y + a - b < 365 * (y + 1) + a' - b'"
    using steps by (simp add: algebra_simps)
  then show "yearStart y < yearStart (y + 1)"
    by (simp add: yearStart_def a_def a'_def b_def b'_def)
  have "365 * (y + 1) + a' - b' \<le> 365 * y + a - b + 366"
    using steps by (simp add: algebra_simps)
  then show "yearStart (y + 1) \<le> yearStart y + 366"
    by (simp add: yearStart_def a_def a'_def b_def b'_def)
qed

lemma year_exists:
  assumes "yearStart 0 \<le> d" "d < yearStart (int n)"
  shows "\<exists>y. 0 \<le> y \<and> y < int n \<and> yearStart y \<le> d \<and> d < yearStart (y + 1)"
  using assms(2)
proof (induction n)
  case 0
  with assms(1) show ?case by simp
next
  case (Suc n)
  show ?case
  proof (cases "d < yearStart (int n)")
    case True
    with Suc.IH obtain y where "0 \<le> y" "y < int n" "yearStart y \<le> d" "d < yearStart (y + 1)"
      by blast
    then show ?thesis by (intro exI [of _ y]) simp
  next
    case False
    with Suc.prems show ?thesis
      by (intro exI [of _ "int n"]) (simp add: add.commute)
  qed
qed

lemma yearOfEra_last: "yearOfEra 146096 = 399" "yearStart 399 = 145731"
  by code_simp+

lemma yearOfEra_year:
  assumes "0 \<le> doe" "doe \<le> 146096"
  shows "0 \<le> yearOfEra doe \<and> yearOfEra doe \<le> 399
         \<and> 0 \<le> doe - yearStart (yearOfEra doe) \<and> doe - yearStart (yearOfEra doe) \<le> 365"
proof (cases "doe = 146096")
  case True
  then show ?thesis by (simp add: yearOfEra_last)
next
  case False
  have "yearStart 0 \<le> doe" "doe < yearStart (int 400)"
    using assms False by (simp_all add: yearStart_def)
  then obtain y where y: "0 \<le> y" "y < 400" "yearStart y \<le> doe" "doe < yearStart (y + 1)"
    using year_exists [of doe 400] by auto
  have top: "yearStart (y + 1) - 1 \<le> 146096"
  proof -
    have "(y + 1) div 4 \<le> 400 div 4" "0 \<le> (y + 1) div 100"
      using y(1,2) by (simp_all add: zdiv_mono1)
    then show ?thesis
      using y(2) by (simp add: yearStart_def)
  qed
  have bottom: "0 \<le> yearStart y"
  proof -
    have "y div 100 \<le> y div 4"
      using y(1) by (intro zdiv_mono2) simp_all
    then show ?thesis
      using y(1) by (simp add: yearStart_def)
  qed
  have "yearOfEra (yearStart y) \<le> yearOfEra doe"
    using bottom y(3) assms(2) by (intro yearOfEra_mono)
  moreover have "yearOfEra doe \<le> yearOfEra (yearStart (y + 1) - 1)"
    using assms(1) y(4) top by (intro yearOfEra_mono) simp_all
  ultimately have "yearOfEra doe = y"
    using yearOfEra_ends [of y] y(1,2) by simp
  moreover have "doe - yearStart y \<le> 365"
    using y(4) yearStart_next(2) [of y] by simp
  ultimately show ?thesis
    using y by simp
qed

lemma civil_round_trip:
  "case civil_from_days z of (y, m, d) \<Rightarrow> days_from_civil y m 1 + d - 1 = z \<and> 1 \<le> m \<and> m \<le> 12"
proof -
  define z' where "z' = z + 719468"
  define era where "era = z' div 146097"
  define doe where "doe = z' - era * 146097"
  define yoe where "yoe = yearOfEra doe"
  define doy where "doy = doe - yearStart yoe"
  define mp where "mp = (5 * doy + 2) div 153"
  define d where "d = doy - (153 * mp + 2) div 5 + 1"
  define m where "m = (if mp < 10 then mp + 3 else mp - 9)"
  define y where "y = yoe + era * 400"
  have civil: "civil_from_days z = (if m \<le> 2 then y + 1 else y, m, d)"
    unfolding civil_from_days_def Let_def y_def m_def d_def mp_def doy_def yoe_def doe_def
      era_def z'_def ..
  have "doe = z' mod 146097"
    unfolding doe_def era_def by (simp add: minus_div_mult_eq_mod)
  then have doe: "0 \<le> doe" "doe \<le> 146096"
    by simp_all
  have yoe: "0 \<le> yoe" "yoe \<le> 399" and doy: "0 \<le> doy" "doy \<le> 365"
    using yearOfEra_year [OF doe] by (simp_all add: yoe_def doy_def)
  have mp: "0 \<le> mp" "mp \<le> 11"
  proof -
    have "0 \<le> 5 * doy + 2" "5 * doy + 2 \<le> 1827"
      using doy by simp_all
    then have "0 div 153 \<le> (5 * doy + 2) div 153" "(5 * doy + 2) div 153 \<le> 1827 div (153::int)"
      by (intro zdiv_mono1; simp)+
    then show "0 \<le> mp" "mp \<le> 11"
      by (simp_all add: mp_def)
  qed
  have m: "1 \<le> m" "m \<le> 12" "(if m > 2 then m - 3 else m + 9) = mp"
    using mp by (auto simp: m_def)
  have year: "(if m \<le> 2 then (if m \<le> 2 then y + 1 else y) - 1 else (if m \<le> 2 then y + 1 else y)) = y"
    by simp
  have "y div 400 = era"
  proof -
    have "(yoe + era * 400) div 400 = yoe div 400 + era"
      by simp
    moreover have "yoe div 400 = 0"
      using yoe by simp
    ultimately show ?thesis by (simp add: y_def)
  qed
  then have era: "y div 400 = era" "y - era * 400 = yoe"
    by (simp_all add: y_def)
  have "days_from_civil (if m \<le> 2 then y + 1 else y) m 1 + d - 1
      = era * 146097 + (yearStart yoe + ((153 * mp + 2) div 5 + 1 - 1)) - 719468 + d - 1"
    unfolding days_from_civil_def Let_def year m(3) era ..
  also have "\<dots> = era * 146097 + (yearStart yoe + doy) - 719468"
    by (simp add: d_def)
  also have "\<dots> = z"
    by (simp add: doy_def doe_def z'_def)
  finally show ?thesis
    using m(1,2) by (simp add: civil)
qed

lemma MakeDay_fields:
  "MakeDay (YearFromTime t) (MonthFromTime t) dt = Day t - DateFromTime t + dt"
proof -
  obtain y m d where c: "civil_from_days (Day t) = (y, m, d)"
    by (cases "civil_from_days (Day t)")
  with civil_round_trip [of "Day t"]
  have r: "days_from_civil y m 1 + d - 1 = Day t" "1 \<le> m" "m \<le> 12"
    by simp_all
  have "(m - 1) div 12 = 0" "(m - 1) mod 12 + 1 = m"
    using r(2,3) by simp_all
  then have "MakeDay y (m - 1) dt = days_from_civil y m 1 + dt - 1"
    by (simp add: MakeDay_def)
  with r(1) show ?thesis
    by (simp add: YearFromTime_def MonthFromTime_def DateFromTime_def c)
qed


section \<open>Weekday and hour of whole-hour local times\<close>












section \<open>The date of the next occurrence\<close>






lemma todayDay_eq:
  assumes "\<not> (0 \<le> YearFromTime (LocalTime br now) \<and> YearFromTime (LocalTime br now) \<le> 99)"
  shows "todayDay br now = Day (LocalTime br now)"
  using assms MakeDay_fields [of "LocalTime br now" "DateFromTime (LocalTime br now)"]
  by (auto simp: todayDay_def Let_def)



section \<open>There and back\<close>











end
